theory Spec2Isabelle
  imports Main "HOL-Library.Sublist"
begin

section \<open>Strings\<close>

text \<open>
  A JavaScript string is represented by the bytes of its UTF-8 encoding (\<open>string\<close> is a
  list of 8-bit characters). A string is truthy iff it is not empty. A chunk of process
  output (a \<open>Buffer\<close>) is represented by the text \<open>toString("utf-8")\<close> yields for it.
\<close>

definition truthy :: "string option \<Rightarrow> bool" where
  "truthy s = (case s of None \<Rightarrow> False | Some t \<Rightarrow> t \<noteq> '''')"

text \<open>\<open>Array.prototype.join\<close> on an array of strings.\<close>

fun join :: "string \<Rightarrow> string list \<Rightarrow> string" where
  "join sep [] = []"
| "join sep [x] = x"
| "join sep (x # y # ys) = x @ sep @ join sep (y # ys)"

text \<open>
  \<open>String.prototype.trim\<close> removes leading and trailing WhiteSpace and LineTerminator code
  points: U+0009 to U+000D, U+0020, U+00A0, U+1680, U+2000 to U+200A, U+2028, U+2029,
  U+202F, U+205F, U+3000 and U+FEFF, listed here by their UTF-8 encodings.
\<close>

definition whiteSpaceEncodings :: "string list" where
  "whiteSpaceEncodings =
     [[CHR 0x09], [CHR 0x0A], [CHR 0x0B], [CHR 0x0C], [CHR 0x0D], [CHR 0x20],
      [CHR 0xC2, CHR 0xA0],
      [CHR 0xE1, CHR 0x9A, CHR 0x80],
      [CHR 0xE2, CHR 0x80, CHR 0x80], [CHR 0xE2, CHR 0x80, CHR 0x81],
      [CHR 0xE2, CHR 0x80, CHR 0x82], [CHR 0xE2, CHR 0x80, CHR 0x83],
      [CHR 0xE2, CHR 0x80, CHR 0x84], [CHR 0xE2, CHR 0x80, CHR 0x85],
      [CHR 0xE2, CHR 0x80, CHR 0x86], [CHR 0xE2, CHR 0x80, CHR 0x87],
      [CHR 0xE2, CHR 0x80, CHR 0x88], [CHR 0xE2, CHR 0x80, CHR 0x89],
      [CHR 0xE2, CHR 0x80, CHR 0x8A],
      [CHR 0xE2, CHR 0x80, CHR 0xA8], [CHR 0xE2, CHR 0x80, CHR 0xA9],
      [CHR 0xE2, CHR 0x80, CHR 0xAF],
      [CHR 0xE2, CHR 0x81, CHR 0x9F],
      [CHR 0xE3, CHR 0x80, CHR 0x80],
      [CHR 0xEF, CHR 0xBB, CHR 0xBF]]"

function strip :: "string list \<Rightarrow> string \<Rightarrow> string" where
  "strip pats s =
     (case find (\<lambda>p. p \<noteq> [] \<and> prefix p s) pats of
        None \<Rightarrow> s
      | Some p \<Rightarrow> strip pats (drop (length p) s))"
  by pat_completeness auto
termination
  by (relation "measure (\<lambda>(pats, s). length s)") (auto simp: find_Some_iff prefix_def)

declare strip.simps [simp del]

definition trimStart :: "string \<Rightarrow> string" where
  "trimStart s = strip whiteSpaceEncodings s"

definition trimEnd :: "string \<Rightarrow> string" where
  "trimEnd s = rev (strip (map rev whiteSpaceEncodings) (rev s))"

definition trim :: "string \<Rightarrow> string" where
  "trim s = trimEnd (trimStart s)"

section \<open>JSON.parse\<close>

text \<open>
  The value \<open>JSON.parse\<close> returns. An object is the list of its own properties in the
  order in which \<open>Object.keys\<close> and \<open>Object.values\<close> enumerate them. A number is kept as its
  literal: no function of this development reads its value.
\<close>

datatype json =
    JNull
  | JBool bool
  | JNumber string
  | JString string
  | JArray "json list"
  | JObject "(string \<times> json) list"

datatype token =
    TLBrace | TRBrace | TLBracket | TRBracket | TColon | TComma
  | TLit json

definition isDigit :: "char \<Rightarrow> bool" where
  "isDigit c = (48 \<le> (of_char c :: nat) \<and> (of_char c :: nat) \<le> 57)"

text \<open>The JSON grammar's white space: tab, line feed, carriage return and space only.\<close>

definition isJsonWS :: "char \<Rightarrow> bool" where
  "isJsonWS c = (c = CHR 0x09 \<or> c = CHR 0x0A \<or> c = CHR 0x0D \<or> c = CHR 0x20)"

definition hexValue :: "char \<Rightarrow> nat option" where
  "hexValue c =
     (let n = (of_char c :: nat)
      in if 48 \<le> n \<and> n \<le> 57 then Some (n - 48)
         else if 97 \<le> n \<and> n \<le> 102 then Some (n - 87)
         else if 65 \<le> n \<and> n \<le> 70 then Some (n - 55)
         else None)"

definition hex4 :: "string \<Rightarrow> nat option" where
  "hex4 s =
     (case map hexValue (take 4 s) of
        [Some a, Some b, Some c, Some d] \<Rightarrow> Some (((a * 16 + b) * 16 + c) * 16 + d)
      | _ \<Rightarrow> None)"

definition utf8 :: "nat \<Rightarrow> string" where
  "utf8 n =
     (if n < 0x80 then [char_of n]
      else if n < 0x800 then [char_of (0xC0 + n div 64), char_of (0x80 + n mod 64)]
      else if n < 0x10000 then
        [char_of (0xE0 + n div 4096), char_of (0x80 + n div 64 mod 64), char_of (0x80 + n mod 64)]
      else
        [char_of (0xF0 + n div 262144), char_of (0x80 + n div 4096 mod 64),
         char_of (0x80 + n div 64 mod 64), char_of (0x80 + n mod 64)])"

text \<open>
  The four hexadecimal digits after \<open>\u\<close>: the encoded character and the number of
  characters read. An escaped high surrogate directly followed by an escaped low surrogate
  is one code point; a surrogate on its own is encoded like any code unit below
  \<open>0x10000\<close>.
\<close>

definition unicodeEscape :: "string \<Rightarrow> (string \<times> nat) option" where
  "unicodeEscape s =
     (case hex4 s of
        None \<Rightarrow> None
      | Some hi \<Rightarrow>
          if 0xD800 \<le> hi \<and> hi < 0xDC00 \<and> take 2 (drop 4 s) = [CHR 0x5C, CHR ''u'']
          then (case hex4 (drop 6 s) of
                  Some lo \<Rightarrow>
                    if 0xDC00 \<le> lo \<and> lo < 0xE000
                    then Some (utf8 (0x10000 + (hi - 0xD800) * 1024 + (lo - 0xDC00)), 10)
                    else Some (utf8 hi, 4)
                | None \<Rightarrow> Some (utf8 hi, 4))
          else Some (utf8 hi, 4))"

definition simpleEscape :: "char \<Rightarrow> char option" where
  "simpleEscape c =
     (if c = CHR 0x22 then Some (CHR 0x22)
      else if c = CHR 0x5C then Some (CHR 0x5C)
      else if c = CHR ''/'' then Some (CHR ''/'')
      else if c = CHR ''b'' then Some (CHR 0x08)
      else if c = CHR ''f'' then Some (CHR 0x0C)
      else if c = CHR ''n'' then Some (CHR 0x0A)
      else if c = CHR ''r'' then Some (CHR 0x0D)
      else if c = CHR ''t'' then Some (CHR 0x09)
      else None)"

text \<open>The rest of a string literal after its opening quote: its value and what follows it.\<close>

function lexString :: "string \<Rightarrow> (string \<times> string) option" where
  "lexString [] = None"
| "lexString (c # cs) =
     (if c = CHR 0x22 then Some ([], cs)
      else if c = CHR 0x5C then
        (case cs of
           [] \<Rightarrow> None
         | e # r \<Rightarrow>
             if e = CHR ''u'' then
               (case unicodeEscape r of
                  None \<Rightarrow> None
                | Some (bytes, n) \<Rightarrow>
                    map_option (\<lambda>(t, u). (bytes @ t, u)) (lexString (drop n r)))
             else
               (case simpleEscape e of
                  None \<Rightarrow> None
                | Some x \<Rightarrow> map_option (\<lambda>(t, u). (x # t, u)) (lexString r)))
      else if (of_char c :: nat) < 0x20 then None
      else map_option (\<lambda>(t, u). (c # t, u)) (lexString cs))"
  by pat_completeness auto
termination
  by (relation "measure length") auto

lemma lexString_length: "lexString s = Some (t, r) \<Longrightarrow> length r < length s"
proof (induction s arbitrary: t r rule: lexString.induct)
  case 1
  then show ?case by simp
next
  case (2 c cs)
  then show ?case
    by (fastforce split: if_splits list.splits option.splits prod.splits)
qed

text \<open>
  A number literal: \<open>-? (0 | [1-9][0-9]*) (. [0-9]+)? ([eE] [+-]? [0-9]+)?\<close>. Each part
  gives the number of characters it takes up.
\<close>

definition intLen :: "string \<Rightarrow> nat" where
  "intLen s = (if take 1 s = ''0'' then 1 else length (takeWhile isDigit s))"

definition fracLen :: "string \<Rightarrow> nat option" where
  "fracLen s =
     (if take 1 s = ''.''
      then (let d = length (takeWhile isDigit (drop 1 s)) in if d = 0 then None else Some (1 + d))
      else Some 0)"

definition expLen :: "string \<Rightarrow> nat option" where
  "expLen s =
     (if take 1 s = ''e'' \<or> take 1 s = ''E''
      then (let sgn = (if take 1 (drop 1 s) = ''+'' \<or> take 1 (drop 1 s) = ''-'' then 1 else 0);
                d = length (takeWhile isDigit (drop (1 + sgn) s))
            in if d = 0 then None else Some (1 + sgn + d))
      else Some 0)"

definition lexNumber :: "string \<Rightarrow> nat option" where
  "lexNumber s =
     (let sgn = (if take 1 s = ''-'' then 1 else 0);
          i = intLen (drop sgn s)
      in if i = 0 then None
         else (case fracLen (drop (sgn + i) s) of
                 None \<Rightarrow> None
               | Some f \<Rightarrow>
                   (case expLen (drop (sgn + i + f) s) of
                      None \<Rightarrow> None
                    | Some e \<Rightarrow> Some (sgn + i + f + e))))"

text \<open>
  The tokens of a text, or \<open>None\<close> where no token starts. A number of \<open>n\<close> characters
  starts with \<open>c\<close>, so \<open>n - 1\<close> characters of \<open>cs\<close> belong to it.
\<close>

function tokenize :: "string \<Rightarrow> token list option" where
  "tokenize [] = Some []"
| "tokenize (c # cs) =
     (if isJsonWS c then tokenize cs
      else if c = CHR ''{'' then map_option ((#) TLBrace) (tokenize cs)
      else if c = CHR ''}'' then map_option ((#) TRBrace) (tokenize cs)
      else if c = CHR ''['' then map_option ((#) TLBracket) (tokenize cs)
      else if c = CHR '']'' then map_option ((#) TRBracket) (tokenize cs)
      else if c = CHR '':'' then map_option ((#) TColon) (tokenize cs)
      else if c = CHR '','' then map_option ((#) TComma) (tokenize cs)
      else if c = CHR 0x22 then
        (case lexString cs of
           None \<Rightarrow> None
         | Some (t, r) \<Rightarrow> map_option ((#) (TLit (JString t))) (tokenize r))
      else if c = CHR ''-'' \<or> isDigit c then
        (case lexNumber (c # cs) of
           None \<Rightarrow> None
         | Some n \<Rightarrow>
             map_option ((#) (TLit (JNumber (take n (c # cs))))) (tokenize (drop (n - 1) cs)))
      else if take 4 (c # cs) = ''true'' then
        map_option ((#) (TLit (JBool True))) (tokenize (drop 3 cs))
      else if take 5 (c # cs) = ''false'' then
        map_option ((#) (TLit (JBool False))) (tokenize (drop 4 cs))
      else if take 4 (c # cs) = ''null'' then
        map_option ((#) (TLit JNull)) (tokenize (drop 3 cs))
      else None)"
  by pat_completeness auto
termination
  by (relation "measure length") (auto dest: lexString_length)

text \<open>
  The order of an object's own properties: the keys that are array indices (canonical
  decimal numerals below \<open>2^32 - 1\<close>) in ascending numeric order, then the other keys in
  the order of their creation. A key that occurs again overwrites the value and keeps its
  place.
\<close>

definition natOfDigits :: "string \<Rightarrow> nat" where
  "natOfDigits s = foldl (\<lambda>n c. 10 * n + (of_char c - 48)) 0 s"

definition isArrayIndex :: "string \<Rightarrow> bool" where
  "isArrayIndex k =
     (k \<noteq> [] \<and> list_all isDigit k \<and> (k = ''0'' \<or> take 1 k \<noteq> ''0'') \<and>
      natOfDigits k < 4294967295)"

definition objectPut :: "(string \<times> 'a) list \<Rightarrow> string \<Rightarrow> 'a \<Rightarrow> (string \<times> 'a) list" where
  "objectPut m k v =
     (if k \<in> fst ` set m then map (\<lambda>(k', v'). if k' = k then (k', v) else (k', v')) m
      else if isArrayIndex k then
        takeWhile (\<lambda>(k', v'). isArrayIndex k' \<and> natOfDigits k' < natOfDigits k) m
        @ [(k, v)]
        @ dropWhile (\<lambda>(k', v'). isArrayIndex k' \<and> natOfDigits k' < natOfDigits k) m
      else m @ [(k, v)])"


text \<open>
  The grammar, read one token at a time. A frame is an array or an object that is still
  open, with what it holds so far (an object frame also holds the key whose value is being
  read); \<open>expect\<close> is what may come next.
\<close>

datatype frame =
    FArray "json list"
  | FObject "(string \<times> json) list" string

datatype expect =
    Value
  | ValueOrClose
  | KeyOrClose
  | Key "(string \<times> json) list"
  | Colon "(string \<times> json) list" string
  | Done json

fun startValue :: "frame list \<Rightarrow> token \<Rightarrow> (expect \<times> frame list) option" where
  "startValue stk (TLit v) = Some (Done v, stk)"
| "startValue stk TLBracket = Some (ValueOrClose, FArray [] # stk)"
| "startValue stk TLBrace = Some (KeyOrClose, stk)"
| "startValue stk _ = None"

fun step :: "expect \<Rightarrow> frame list \<Rightarrow> token \<Rightarrow> (expect \<times> frame list) option" where
  "step Value stk t = startValue stk t"
| "step ValueOrClose (FArray xs # stk) TRBracket = Some (Done (JArray xs), stk)"
| "step ValueOrClose stk t = startValue stk t"
| "step KeyOrClose stk TRBrace = Some (Done (JObject []), stk)"
| "step KeyOrClose stk (TLit (JString k)) = Some (Colon [] k, stk)"
| "step (Key m) stk (TLit (JString k)) = Some (Colon m k, stk)"
| "step (Colon m k) stk TColon = Some (Value, FObject m k # stk)"
| "step (Done v) (FArray xs # stk) TComma = Some (Value, FArray (xs @ [v]) # stk)"
| "step (Done v) (FArray xs # stk) TRBracket = Some (Done (JArray (xs @ [v])), stk)"
| "step (Done v) (FObject m k # stk) TComma = Some (Key (objectPut m k v), stk)"
| "step (Done v) (FObject m k # stk) TRBrace = Some (Done (JObject (objectPut m k v)), stk)"
| "step _ _ _ = None"

fun parseTokens :: "expect \<Rightarrow> frame list \<Rightarrow> token list \<Rightarrow> json option" where
  "parseTokens (Done v) [] [] = Some v"
| "parseTokens e stk [] = None"
| "parseTokens e stk (t # ts) =
     (case step e stk t of
        None \<Rightarrow> None
      | Some (e', stk') \<Rightarrow> parseTokens e' stk' ts)"

section \<open>Date\<close>

text \<open>
  A time value is a number of milliseconds since 1970-01-01T00:00:00Z; \<open>None\<close> is the time
  value \<open>NaN\<close> of an invalid date.

  \<open>new Date(s)\<close> parses the string \<open>s\<close>. ECMA-262 fixes the result for the date-time string
  format; for a string of the form \<open>YYYY-MM-DDTHH:mm:ss.sssZ\<close> whose fields are in range it
  is \<open>parseIsoUTC s\<close>. What the runtime does with any other string is left to it: it is a
  parameter \<open>otherFormats\<close>.
\<close>

definition msPerDay :: int where
  "msPerDay = 86400000"

definition isLeapYear :: "int \<Rightarrow> bool" where
  "isLeapYear y = (y mod 400 = 0 \<or> (y mod 4 = 0 \<and> y mod 100 \<noteq> 0))"

definition dayFromYear :: "int \<Rightarrow> int" where
  "dayFromYear y =
     365 * (y - 1970) + (y - 1969) div 4 - (y - 1901) div 100 + (y - 1601) div 400"

definition daysInMonth :: "int \<Rightarrow> nat \<Rightarrow> nat" where
  "daysInMonth y m =
     (if m = 2 then (if isLeapYear y then 29 else 28)
      else if m = 4 \<or> m = 6 \<or> m = 9 \<or> m = 11 then 30
      else 31)"

definition daysBeforeMonth :: "int \<Rightarrow> nat \<Rightarrow> nat" where
  "daysBeforeMonth y m =
     sum_list (take (m - 1) (map (daysInMonth y) [1, 2, 3, 4, 5, 6, 7, 8, 9, 10, 11, 12]))"

definition field :: "nat \<Rightarrow> nat \<Rightarrow> string \<Rightarrow> string" where
  "field a n s = take n (drop a s)"

definition parseIsoUTC :: "string \<Rightarrow> int option" where
  "parseIsoUTC s =
     (let year = natOfDigits (field 0 4 s);
          month = natOfDigits (field 5 2 s);
          day = natOfDigits (field 8 2 s);
          hour = natOfDigits (field 11 2 s);
          minute = natOfDigits (field 14 2 s);
          second = natOfDigits (field 17 2 s);
          ms = natOfDigits (field 20 3 s)
      in if length s = 24
            \<and> field 4 1 s = ''-'' \<and> field 7 1 s = ''-'' \<and> field 10 1 s = ''T''
            \<and> field 13 1 s = '':'' \<and> field 16 1 s = '':'' \<and> field 19 1 s = ''.''
            \<and> field 23 1 s = ''Z''
            \<and> list_all isDigit
                 (field 0 4 s @ field 5 2 s @ field 8 2 s @ field 11 2 s @ field 14 2 s
                  @ field 17 2 s @ field 20 3 s)
            \<and> 1 \<le> month \<and> month \<le> 12 \<and> 1 \<le> day \<and> day \<le> daysInMonth (int year) month
            \<and> hour \<le> 23 \<and> minute \<le> 59 \<and> second \<le> 59
         then Some ((dayFromYear (int year) + int (daysBeforeMonth (int year) month) + int day - 1)
                      * msPerDay
                    + int hour * 3600000 + int minute * 60000 + int second * 1000 + int ms)
         else None)"

definition Date_parse :: "(string \<Rightarrow> int option) \<Rightarrow> string \<Rightarrow> int option" where
  "Date_parse otherFormats s =
     (case parseIsoUTC s of
        Some tv \<Rightarrow> Some tv
      | None \<Rightarrow> otherFormats s)"

text \<open>
  \<open>Date.prototype.toUTCString\<close>: \<open>Invalid Date\<close> for \<open>NaN\<close>, and otherwise the day name, the
  day of the month in two digits, the month name, the year in at least four digits (after
  a minus sign if it is negative) and the time \<open>HH:mm:ss\<close>, followed by \<open>GMT\<close>: the date
  format of RFC 1123. Year, month and day of a day number are those of the proleptic
  Gregorian calendar.
\<close>

definition digitChar :: "nat \<Rightarrow> char" where
  "digitChar n = ''0123456789'' ! n"

fun decimal :: "nat \<Rightarrow> string" where
  "decimal n = (if n < 10 then [digitChar n] else decimal (n div 10) @ [digitChar (n mod 10)])"

declare decimal.simps [simp del]

definition zeroPadded :: "nat \<Rightarrow> nat \<Rightarrow> string" where
  "zeroPadded n minLength = replicate (minLength - length (decimal n)) (CHR ''0'') @ decimal n"

definition civilOfMonth :: "int \<Rightarrow> int \<Rightarrow> int \<Rightarrow> int \<times> int \<times> int" where
  "civilOfMonth y doy mp =
     (if mp < 10 then (y, mp + 3, doy - (153 * mp + 2) div 5 + 1)
      else (y + 1, mp - 9, doy - (153 * mp + 2) div 5 + 1))"

definition civilOfYearDay :: "int \<Rightarrow> int \<Rightarrow> int \<times> int \<times> int" where
  "civilOfYearDay y doy = civilOfMonth y doy ((5 * doy + 2) div 153)"

definition yearOfEra :: "int \<Rightarrow> int" where
  "yearOfEra doe = (doe - doe div 1460 + doe div 36524 - doe div 146096) div 365"

definition dayOfYear :: "int \<Rightarrow> int \<Rightarrow> int" where
  "dayOfYear doe yoe = doe - (365 * yoe + yoe div 4 - yoe div 100)"

definition civilOfEraDay :: "int \<Rightarrow> int \<Rightarrow> int \<times> int \<times> int" where
  "civilOfEraDay era doe =
     civilOfYearDay (yearOfEra doe + era * 400) (dayOfYear doe (yearOfEra doe))"

text \<open>
  Year, month (1 to 12) and day of the month of a day number. Days are counted in eras of
  400 years (146097 days) that start on a 1 March, so that a leap day is the last day of
  its year.
\<close>

definition civilFromDays :: "int \<Rightarrow> int \<times> int \<times> int" where
  "civilFromDays days =
     civilOfEraDay ((days + 719468) div 146097) ((days + 719468) mod 146097)"

definition weekDayNames :: "string list" where
  "weekDayNames = [''Sun'', ''Mon'', ''Tue'', ''Wed'', ''Thu'', ''Fri'', ''Sat'']"

definition monthNames :: "string list" where
  "monthNames = [''Jan'', ''Feb'', ''Mar'', ''Apr'', ''May'', ''Jun'',
                 ''Jul'', ''Aug'', ''Sep'', ''Oct'', ''Nov'', ''Dec'']"

definition utcString :: "int \<Rightarrow> int \<Rightarrow> string" where
  "utcString day msInDay =
     (case civilFromDays day of
        (yv, m, d) \<Rightarrow>
          weekDayNames ! nat ((day + 4) mod 7) @ '', ''
          @ zeroPadded (nat d) 2 @ '' ''
          @ monthNames ! nat (m - 1) @ '' ''
          @ (if 0 \<le> yv then [] else ''-'') @ zeroPadded (nat \<bar>yv\<bar>) 4 @ '' ''
          @ zeroPadded (nat (msInDay div 3600000)) 2 @ '':''
          @ zeroPadded (nat (msInDay div 60000 mod 60)) 2 @ '':''
          @ zeroPadded (nat (msInDay div 1000 mod 60)) 2 @ '' GMT'')"

definition toUTCString :: "int option \<Rightarrow> string" where
  "toUTCString tv =
     (case tv of
        None \<Rightarrow> ''Invalid Date''
      | Some t \<Rightarrow> utcString (t div msPerDay) (t mod msPerDay))"

section \<open>Errors\<close>

text \<open>
  What the functions throw, or reject their promise with:
  \<^item> \<open>ProcessFailure m\<close>: the \<open>Error\<close> with message \<open>m\<close> with which \<open>exec\<close> rejects;
  \<^item> \<open>SyntaxError\<close>: thrown by \<open>JSON.parse\<close> (the specification's MalformedResultError);
  \<^item> \<open>TypeError\<close>: thrown by the runtime when a property of \<open>undefined\<close> or \<open>null\<close> is read;
  \<^item> \<open>DeployError x\<close>: \<open>Error(x)\<close>, thrown by \<open>run\<close>, where \<open>x\<close> is the value of the result's
    \<open>error\<close> property (\<open>None\<close> when it has none);
  \<^item> \<open>PreconditionError\<close>: named by the specification; no statement of the source throws it.
\<close>

datatype error =
    ProcessFailure string
  | SyntaxError
  | TypeError
  | DeployError "json option"
  | PreconditionError

definition JSON_parse :: "string \<Rightarrow> error + json" where
  "JSON_parse text =
     (case tokenize text of
        None \<Rightarrow> Inl SyntaxError
      | Some ts \<Rightarrow>
          (case parseTokens Value [] ts of
             None \<Rightarrow> Inl SyntaxError
           | Some v \<Rightarrow> Inr v))"

section \<open>The external process\<close>

text \<open>
  One run of \<open>exec\<close> (of \<open>@actions/exec\<close>): the chunks it hands to the \<open>stdout\<close> listener,
  in arrival order, each as the text \<open>toString("utf-8")\<close> yields for it; the text
  \<open>Buffer.concat(chunks).toString("utf-8")\<close> of all the chunks together (it is the
  concatenation of the chunks' texts unless a chunk ends inside a character); and whether
  the promise rejects (\<open>Some\<close> of the error's message, as on a non-zero exit code) or
  resolves. What a run does is not decided by this program: it is a parameter \<open>ex\<close>, a
  function of the invocation and of the state of the world.
\<close>

record exec_result =
  stdout_data :: "string list"
  stdout_text :: string
  rejection :: "string option"

record invocation =
  commandLine :: string
  inv_args :: "string list"
  inv_env :: "string \<rightharpoonup> string"

type_synonym 'w exec = "invocation \<Rightarrow> 'w \<Rightarrow> exec_result \<times> 'w"

text \<open>
  The state the functions thread: the world the process runs in, \<open>process.env\<close>, the
  invocations made so far and the lines written by \<open>console.log\<close>.
\<close>

record 'w state =
  world :: 'w
  process_env :: "string \<rightharpoonup> string"
  calls :: "invocation list"
  console :: "string list"

section \<open>deploy.ts\<close>

record SiteDeploy =
  site :: string
  target :: "string option"
  url :: string
  expireTime :: string

text \<open>
  \<open>ChannelSuccessResult\<close>: the \<open>status\<close> field is the constant \<open>"success"\<close>; \<open>result\<close> is the
  object's own properties in enumeration order.
\<close>

record ChannelSuccessResult =
  result :: "(string \<times> SiteDeploy) list"

record DeployConfig =
  projectId :: string
  targets :: "string list option"
  config :: "string option"
  firebaseToolsVersion :: "string option"

record ChannelDeployConfig = DeployConfig +
  expires :: string
  channelId :: string

type_synonym ProductionDeployConfig = DeployConfig

record ChannelInterpretation =
  res_expireTime :: string
  expire_time_formatted :: string
  urls :: "string list"

text \<open>
  \<open>interpretChannelDeployResult\<close>. \<open>Object.values\<close> lists the values in enumeration order.
  \<open>allSiteResults[0]\<close> is \<open>undefined\<close> for an empty array, and reading its \<open>expireTime\<close>
  throws a TypeError. \<open>otherFormats\<close> is what \<open>new Date\<close> makes of the strings whose parsing
  the runtime decides.
\<close>

definition interpretChannelDeployResult ::
  "(string \<Rightarrow> int option) \<Rightarrow> ChannelSuccessResult \<Rightarrow> error + ChannelInterpretation" where
  "interpretChannelDeployResult otherFormats deployResult =
     (let allSiteResults = map snd (result deployResult)
      in case allSiteResults of
           [] \<Rightarrow> Inl TypeError
         | first # _ \<Rightarrow>
             Inr \<lparr>res_expireTime = expireTime first,
                  expire_time_formatted =
                    toUTCString (Date_parse otherFormats (expireTime first)),
                  urls = map url allSiteResults\<rparr>)"

record AuthOptions =
  gacFilename :: "string option"
  firebaseToken :: "string option"

record ExecOpts =
  opts_debug :: "bool option"
  opts_firebaseToolsVersion :: "string option"

text \<open>\<open>opts.debug || false\<close> and \<open>opts.firebaseToolsVersion || "latest"\<close>.\<close>

definition debugOf :: "ExecOpts \<Rightarrow> bool" where
  "debugOf opts = (case opts_debug opts of Some b \<Rightarrow> b | None \<Rightarrow> False)"

definition versionOf :: "ExecOpts \<Rightarrow> string" where
  "versionOf opts =
     (if truthy (opts_firebaseToolsVersion opts) then the (opts_firebaseToolsVersion opts)
      else ''latest'')"

text \<open>
  The three arguments of the call of \<open>exec\<close>: command line, argument list, environment.
  \<open>pid\<close> is the parameter \<open>projectId\<close> of \<open>execWithCredentials\<close>; an absent token or
  credentials file name is \<open>None\<close>.
\<close>

definition execCall ::
  "string list \<Rightarrow> string \<Rightarrow> AuthOptions \<Rightarrow> bool \<Rightarrow> string \<Rightarrow> (string \<rightharpoonup> string) \<Rightarrow> invocation" where
  "execCall args pid auth debug version penv =
     \<lparr>commandLine = ''npx firebase-tools@'' @ version,
      inv_args =
        args
        @ (if pid \<noteq> '''' then [''--project'', pid] else [])
        @ (if truthy (firebaseToken auth) then [''--token'', the (firebaseToken auth)] else [])
        @ [if debug then ''--debug'' else ''''],
      inv_env =
        (let e = penv(''FIREBASE_DEPLOY_AGENT'' \<mapsto> ''oudyworks-action-firebase-deploy'')
         in if truthy (gacFilename auth)
            then e(''GOOGLE_APPLICATION_CREDENTIALS'' \<mapsto> the (gacFilename auth))
            else e)\<rparr>"

text \<open>The \<open>return\<close> statement: the last chunk, or the empty string when there is none.\<close>

definition lastChunk :: "string list \<Rightarrow> string" where
  "lastChunk deployOutputBuf = (if deployOutputBuf \<noteq> [] then last deployOutputBuf else '''')"

text \<open>
  \<open>execWithCredentials\<close>. \<open>deployOutputBuf\<close> is local to one activation. The value of the
  recursive call is awaited and dropped; when it resolves, control reaches the \<open>return\<close>
  statement of the calling activation; when it rejects, the calling activation rejects with
  the same error. The \<open>catch\<close> block logs the text of the whole buffer and the error's
  message.
\<close>

function execWithCredentials ::
  "'w exec \<Rightarrow> string list \<Rightarrow> string \<Rightarrow> AuthOptions \<Rightarrow> ExecOpts \<Rightarrow> 'w state
     \<Rightarrow> (error + string) \<times> 'w state" where
  "execWithCredentials ex args pid auth opts st =
     (let debug = debugOf opts;
          firebaseToolsVersion = versionOf opts;
          call = execCall args pid auth debug firebaseToolsVersion (process_env st);
          out = ex call (world st);
          deployOutputBuf = stdout_data (fst out);
          deployOutputText = stdout_text (fst out);
          st1 = st\<lparr>world := snd out, calls := calls st @ [call]\<rparr>
      in case rejection (fst out) of
           None \<Rightarrow> (Inr (lastChunk deployOutputBuf), st1)
         | Some message \<Rightarrow>
             (let st2 = st1\<lparr>console := console st1 @ [deployOutputText, message]\<rparr>
              in if \<not> debug
                 then (let st3 = st2\<lparr>console := console st2 @
                               [''Retrying deploy with the --debug flag for better error output'']\<rparr>;
                           retry = execWithCredentials ex args pid auth
                                     \<lparr>opts_debug = Some True,
                                      opts_firebaseToolsVersion = Some firebaseToolsVersion\<rparr> st3
                       in case fst retry of
                            Inl e \<Rightarrow> (Inl e, snd retry)
                          | Inr _ \<Rightarrow> (Inr (lastChunk deployOutputBuf), snd retry))
                 else (Inl (ProcessFailure message), st2)))"
  by pat_completeness auto
termination
  by (relation "measure (\<lambda>(ex, args, pid, auth, opts, st). if debugOf opts then 0 else 1)")
     (auto simp: debugOf_def)

declare execWithCredentials.simps [simp del]

text \<open>The state in which the retry starts, after the three lines of the \<open>catch\<close> block.\<close>

definition retryState :: "'w state \<Rightarrow> invocation \<Rightarrow> exec_result \<Rightarrow> 'w \<Rightarrow> string \<Rightarrow> 'w state" where
  "retryState st call1 ra wa ma =
     st\<lparr>world := wa, calls := calls st @ [call1],
        console := console st @ [stdout_text ra, ma,
                     ''Retrying deploy with the --debug flag for better error output'']\<rparr>"

text \<open>
  \<open>deployPreview\<close>. The argument list it builds is named \<open>previewArgs\<close>; the options object
  it passes holds \<open>firebaseToolsVersion\<close> only.
\<close>

definition previewArgs :: "ChannelDeployConfig \<Rightarrow> string list" where
  "previewArgs deployConfig =
     [''hosting:channel:deploy'', channelId deployConfig]
     @ (if truthy (config deployConfig) then [''--config'', the (config deployConfig)] else [])
     @ (case targets deployConfig of
          None \<Rightarrow> []
        | Some ts \<Rightarrow> if length ts > 0 then [''--only'', join '','' ts] else [])
     @ (if expires deployConfig \<noteq> '''' then [''--expires'', expires deployConfig] else [])"

definition deployPreview ::
  "'w exec \<Rightarrow> AuthOptions \<Rightarrow> ChannelDeployConfig \<Rightarrow> 'w state \<Rightarrow> (error + json) \<times> 'w state" where
  "deployPreview ex auth deployConfig st =
     (let out = execWithCredentials ex (previewArgs deployConfig) (projectId deployConfig) auth
                  \<lparr>opts_debug = None,
                   opts_firebaseToolsVersion = firebaseToolsVersion deployConfig\<rparr>
                  st
      in case fst out of
           Inl e \<Rightarrow> (Inl e, snd out)
         | Inr deploymentText \<Rightarrow> (JSON_parse (trim deploymentText), snd out))"

text \<open>\<open>deployProductionSite\<close>, with its argument list \<open>productionArgs\<close>.\<close>

definition productionArgs :: "ProductionDeployConfig \<Rightarrow> string list" where
  "productionArgs productionDeployConfig =
     [''deploy'']
     @ (if truthy (config productionDeployConfig)
        then [''--config'', the (config productionDeployConfig)] else [])
     @ (case targets productionDeployConfig of
          None \<Rightarrow> []
        | Some ts \<Rightarrow> if length ts > 0 then [''--only'', join '','' ts] else [])"

definition deployProductionSite ::
  "'w exec \<Rightarrow> AuthOptions \<Rightarrow> ProductionDeployConfig \<Rightarrow> 'w state \<Rightarrow> (error + json) \<times> 'w state" where
  "deployProductionSite ex auth productionDeployConfig st =
     (let out = execWithCredentials ex (productionArgs productionDeployConfig)
                  (projectId productionDeployConfig) auth
                  \<lparr>opts_debug = None,
                   opts_firebaseToolsVersion = firebaseToolsVersion productionDeployConfig\<rparr>
                  st
      in case fst out of
           Inl e \<Rightarrow> (Inl e, snd out)
         | Inr deploymentText \<Rightarrow> (JSON_parse deploymentText, snd out))"

section \<open>The caller\<close>

text \<open>
  Reading the property \<open>k\<close> of a parsed value, for a name \<open>k\<close> that no prototype defines and
  that is neither an array index nor \<open>length\<close> (\<open>status\<close> and \<open>error\<close> are such names): the
  property of an object if it has it, \<open>undefined\<close> (\<open>None\<close>) otherwise; reading a property
  of \<open>null\<close> throws.
\<close>

definition getProp :: "json \<Rightarrow> string \<Rightarrow> error + json option" where
  "getProp v k =
     (case v of
        JNull \<Rightarrow> Inl TypeError
      | JObject m \<Rightarrow> Inr (map_of m k)
      | _ \<Rightarrow> Inr None)"

text \<open>
  What \<open>run\<close> does with the value of \<open>deployPreview\<close> and of \<open>deployProductionSite\<close> before
  anything else: \<open>if (deployment.status === "error") throw Error(deployment.error)\<close>.
\<close>

definition run_statusCheck :: "json \<Rightarrow> error + json" where
  "run_statusCheck deployment =
     (case getProp deployment ''status'' of
        Inl e \<Rightarrow> Inl e
      | Inr status \<Rightarrow>
          if status = Some (JString ''error'')
          then (case getProp deployment ''error'' of
                  Inl e \<Rightarrow> Inl e
                | Inr x \<Rightarrow> Inl (DeployError x))
          else Inr deployment)"

section \<open>A scripted process\<close>

text \<open>
  A process whose successive runs are listed in advance, whatever the invocation: the
  world is the list of the runs to come. It gives the theorems concrete instances.
\<close>

definition scripted :: "exec_result list exec" where
  "scripted call w =
     (case w of
        [] \<Rightarrow> (\<lparr>stdout_data = [], stdout_text = '''', rejection = None\<rparr>, [])
      | r # rs \<Rightarrow> (r, rs))"

definition initial :: "exec_result list \<Rightarrow> exec_result list state" where
  "initial w = \<lparr>world = w, process_env = Map.empty, calls = [], console = []\<rparr>"

text \<open>Runs whose chunks each hold whole characters.\<close>

definition succeeds :: "string list \<Rightarrow> exec_result" where
  "succeeds chunks = \<lparr>stdout_data = chunks, stdout_text = concat chunks, rejection = None\<rparr>"

definition fails :: "string list \<Rightarrow> string \<Rightarrow> exec_result" where
  "fails chunks message =
     \<lparr>stdout_data = chunks, stdout_text = concat chunks, rejection = Some message\<rparr>"

definition noAuth :: AuthOptions where
  "noAuth = \<lparr>gacFilename = None, firebaseToken = None\<rparr>"

definition demoPreview :: ChannelDeployConfig where
  "demoPreview = \<lparr>projectId = ''demo'', targets = None, config = Some ''firebase.json'',
                  firebaseToolsVersion = None, expires = ''7d'', channelId = ''pr1''\<rparr>"

definition demoProduction :: ProductionDeployConfig where
  "demoProduction = \<lparr>projectId = ''demo'', targets = None, config = Some ''firebase.json'',
                     firebaseToolsVersion = None\<rparr>"

text \<open>
  A runtime that takes no string but those of the date-time format above for a date. The
  examples use it with timestamps of that format, where the choice makes no difference.
\<close>

definition isoOnly :: "string \<Rightarrow> int option" where
  "isoOnly s = None"

section \<open>Evaluation on concrete inputs\<close>

text \<open>The defining equations that the simplifier needs to run the model on a given input.\<close>

lemmas scripted_eval = scripted_def initial_def succeeds_def fails_def noAuth_def
  execCall_def debugOf_def versionOf_def truthy_def lastChunk_def Let_def

lemmas trim_eval = trim_def trimStart_def trimEnd_def whiteSpaceEncodings_def strip.simps




lemmas json_eval = JSON_parse_def isJsonWS_def isDigit_def lexNumber_def intLen_def fracLen_def
  expLen_def simpleEscape_def objectPut_def isArrayIndex_def natOfDigits_def unicodeEscape_def
  hex4_def hexValue_def utf8_def

section \<open>How \<open>execWithCredentials\<close> runs\<close>

text \<open>
  The three ways through \<open>execWithCredentials\<close>: the first invocation resolves; it rejects
  with \<open>debug\<close> true; it rejects with \<open>debug\<close> false, and the second invocation resolves or
  rejects.
\<close>

lemma versionOf_retry:
  "versionOf \<lparr>opts_debug = d, opts_firebaseToolsVersion = Some (versionOf opts)\<rparr> = versionOf opts"
  by (auto simp: versionOf_def truthy_def split: option.splits)

lemma debugOf_retry: "debugOf \<lparr>opts_debug = Some True, opts_firebaseToolsVersion = v\<rparr>"
  by (simp add: debugOf_def)

lemma exec_resolved:
  assumes "ex (execCall args pid auth (debugOf opts) (versionOf opts) (process_env st)) (world st) = (ra, wa)"
    and "rejection ra = None"
  shows "execWithCredentials ex args pid auth opts st =
           (Inr (lastChunk (stdout_data ra)),
            st\<lparr>world := wa,
               calls := calls st @ [execCall args pid auth (debugOf opts) (versionOf opts) (process_env st)]\<rparr>)"
  using assms by (subst execWithCredentials.simps) (simp add: Let_def)

lemma exec_rejected_debug:
  assumes "ex (execCall args pid auth (debugOf opts) (versionOf opts) (process_env st)) (world st) = (ra, wa)"
    and "rejection ra = Some ma"
    and "debugOf opts"
  shows "execWithCredentials ex args pid auth opts st =
           (Inl (ProcessFailure ma),
            st\<lparr>world := wa,
               calls := calls st @ [execCall args pid auth True (versionOf opts) (process_env st)],
               console := console st @ [stdout_text ra, ma]\<rparr>)"
  using assms by (subst execWithCredentials.simps) (simp add: Let_def)

lemma exec_rejected_retry:
  assumes "ex (execCall args pid auth False (versionOf opts) (process_env st)) (world st) = (ra, wa)"
    and "rejection ra = Some ma"
    and "\<not> debugOf opts"
  shows "execWithCredentials ex args pid auth opts st =
           (let retry = execWithCredentials ex args pid auth
                          \<lparr>opts_debug = Some True, opts_firebaseToolsVersion = Some (versionOf opts)\<rparr>
                          (retryState st (execCall args pid auth False (versionOf opts) (process_env st)) ra wa ma)
            in (case fst retry of Inl e \<Rightarrow> Inl e | Inr _ \<Rightarrow> Inr (lastChunk (stdout_data ra)),
                snd retry))"
  using assms
  by (subst execWithCredentials.simps) (simp add: Let_def retryState_def split: sum.splits)


lemma exec_rejected_twice:
  assumes "ex (execCall args pid auth False (versionOf opts) (process_env st)) (world st) = (ra, wa)"
    and "rejection ra = Some ma"
    and "\<not> debugOf opts"
    and "ex (execCall args pid auth True (versionOf opts) (process_env st)) wa = (rb, wb)"
  shows "execWithCredentials ex args pid auth opts st =
           ((case rejection rb of
               None \<Rightarrow> Inr (lastChunk (stdout_data ra))
             | Some mb \<Rightarrow> Inl (ProcessFailure mb)),
            st\<lparr>world := wb,
               calls := calls st @ [execCall args pid auth False (versionOf opts) (process_env st),
                                    execCall args pid auth True (versionOf opts) (process_env st)],
               console := console st @ [stdout_text ra, ma,
                            ''Retrying deploy with the --debug flag for better error output'']
                          @ (case rejection rb of
                               None \<Rightarrow> []
                             | Some mb \<Rightarrow> [stdout_text rb, mb])\<rparr>)"
proof -
  let ?o = "\<lparr>opts_debug = Some True, opts_firebaseToolsVersion = Some (versionOf opts)\<rparr>"
  let ?s = "retryState st (execCall args pid auth False (versionOf opts) (process_env st)) ra wa ma"
  have call: "ex (execCall args pid auth (debugOf ?o) (versionOf ?o) (process_env ?s)) (world ?s) = (rb, wb)"
    using assms(4) by (simp add: debugOf_retry versionOf_retry retryState_def)
  show ?thesis
  proof (cases "rejection rb")
    case None
    from exec_resolved [of ex args pid auth ?o ?s rb wb, OF call None] show ?thesis
      using exec_rejected_retry [of ex args pid auth opts st ra wa ma, OF assms(1-3)] None
      by (simp add: retryState_def debugOf_retry versionOf_retry)
  next
    case (Some mb)
    from exec_rejected_debug [of ex args pid auth ?o ?s rb wb mb, OF call Some debugOf_retry] show ?thesis
      using exec_rejected_retry [of ex args pid auth opts st ra wa ma, OF assms(1-3)] Some
      by (simp add: retryState_def debugOf_retry versionOf_retry)
  qed
qed

lemma execCall_commandLine [simp]:
  "commandLine (execCall args pid auth d v e) = ''npx firebase-tools@'' @ v"
  by (simp add: execCall_def)

lemma execCall_env_debug:
  "inv_env (execCall args pid auth d v e) = inv_env (execCall args pid auth d' v e)"
  by (simp add: execCall_def)

lemma execCall_args:
  "inv_args (execCall args pid auth d v e) =
     args
     @ (if pid \<noteq> [] then [''--project'', pid] else [])
     @ (if truthy (firebaseToken auth) then [''--token'', the (firebaseToken auth)] else [])
     @ [if d then ''--debug'' else []]"
  by (simp add: execCall_def)

lemma execCall_butlast_args:
  "butlast (inv_args (execCall args pid auth d v e)) =
     args
     @ (if pid \<noteq> [] then [''--project'', pid] else [])
     @ (if truthy (firebaseToken auth) then [''--token'', the (firebaseToken auth)] else [])"
  by (simp add: execCall_args butlast_append)

lemma execCall_last_arg:
  "last (inv_args (execCall args pid auth d v e)) = (if d then ''--debug'' else [])"
  by (simp add: execCall_args)

lemma exec_first_call:
  "calls (snd (execWithCredentials ex args pid auth opts st)) ! length (calls st) =
     execCall args pid auth (debugOf opts) (versionOf opts) (process_env st)"
proof -
  obtain ra wa where a: "ex (execCall args pid auth (debugOf opts) (versionOf opts) (process_env st)) (world st) = (ra, wa)"
    by (cases "ex (execCall args pid auth (debugOf opts) (versionOf opts) (process_env st)) (world st)")
  show ?thesis
  proof (cases "rejection ra")
    case None
    from exec_resolved [of ex args pid auth opts st ra wa, OF a None] show ?thesis by simp
  next
    case (Some ma)
    show ?thesis
    proof (cases "debugOf opts")
      case True
      from exec_rejected_debug [of ex args pid auth opts st ra wa ma, OF a Some True] True
      show ?thesis by simp
    next
      case False
      obtain rb wb where b: "ex (execCall args pid auth True (versionOf opts) (process_env st)) wa = (rb, wb)"
        by (cases "ex (execCall args pid auth True (versionOf opts) (process_env st)) wa")
      from a False have a': "ex (execCall args pid auth False (versionOf opts) (process_env st)) (world st) = (ra, wa)"
        by simp
      from exec_rejected_twice [of ex args pid auth opts st ra wa ma rb wb, OF a' Some False b] False
      show ?thesis by simp
    qed
  qed
qed

lemma exec_error_kind:
  assumes "fst (execWithCredentials ex args pid auth opts st) = Inl e"
  shows "\<exists>m. e = ProcessFailure m"
proof -
  obtain ra wa where a: "ex (execCall args pid auth (debugOf opts) (versionOf opts) (process_env st)) (world st) = (ra, wa)"
    by (cases "ex (execCall args pid auth (debugOf opts) (versionOf opts) (process_env st)) (world st)")
  show ?thesis
  proof (cases "rejection ra")
    case None
    from exec_resolved [of ex args pid auth opts st ra wa, OF a None] assms show ?thesis by simp
  next
    case (Some ma)
    show ?thesis
    proof (cases "debugOf opts")
      case True
      from exec_rejected_debug [of ex args pid auth opts st ra wa ma, OF a Some True] assms
      show ?thesis by auto
    next
      case False
      obtain rb wb where b: "ex (execCall args pid auth True (versionOf opts) (process_env st)) wa = (rb, wb)"
        by (cases "ex (execCall args pid auth True (versionOf opts) (process_env st)) wa")
      from a False have a': "ex (execCall args pid auth False (versionOf opts) (process_env st)) (world st) = (ra, wa)"
        by simp
      from exec_rejected_twice [of ex args pid auth opts st ra wa ma rb wb, OF a' Some False b] assms
      show ?thesis by (cases "rejection rb") auto
    qed
  qed
qed

lemma exec_scripted_resolved:
  "execWithCredentials scripted args pid auth opts (initial (succeeds chunks # rest)) =
     (Inr (lastChunk chunks),
      (initial (succeeds chunks # rest))
        \<lparr>world := rest,
         calls := [execCall args pid auth (debugOf opts) (versionOf opts) Map.empty]\<rparr>)"
  using exec_resolved [of scripted args pid auth opts "initial (succeeds chunks # rest)"
                          "succeeds chunks" rest]
  by (simp add: scripted_def initial_def succeeds_def)

section \<open>How the two deploy functions run\<close>

lemma deployPreview_state:
  "snd (deployPreview ex auth cfg st) =
     snd (execWithCredentials ex (previewArgs cfg) (projectId cfg) auth
            \<lparr>opts_debug = None, opts_firebaseToolsVersion = firebaseToolsVersion cfg\<rparr> st)"
  by (simp add: deployPreview_def Let_def split: sum.splits)

lemma deployProductionSite_state:
  "snd (deployProductionSite ex auth cfg st) =
     snd (execWithCredentials ex (productionArgs cfg) (projectId cfg) auth
            \<lparr>opts_debug = None, opts_firebaseToolsVersion = firebaseToolsVersion cfg\<rparr> st)"
  by (simp add: deployProductionSite_def Let_def split: sum.splits)

lemma deployPreview_text:
  assumes "execWithCredentials ex (previewArgs cfg) (projectId cfg) auth
             \<lparr>opts_debug = None, opts_firebaseToolsVersion = firebaseToolsVersion cfg\<rparr> st
           = (Inr text, st')"
  shows "deployPreview ex auth cfg st = (JSON_parse (trim text), st')"
  using assms by (simp add: deployPreview_def)

lemma deployProductionSite_text:
  assumes "execWithCredentials ex (productionArgs cfg) (projectId cfg) auth
             \<lparr>opts_debug = None, opts_firebaseToolsVersion = firebaseToolsVersion cfg\<rparr> st
           = (Inr text, st')"
  shows "deployProductionSite ex auth cfg st = (JSON_parse text, st')"
  using assms by (simp add: deployProductionSite_def)

lemma JSON_parse_error: "JSON_parse text = Inl e \<Longrightarrow> e = SyntaxError"
  by (auto simp: JSON_parse_def split: option.splits)

lemma deployPreview_error_kind:
  assumes "fst (deployPreview ex auth cfg st) = Inl e"
  shows "e = SyntaxError \<or> (\<exists>m. e = ProcessFailure m)"
  using assms
  by (auto simp: deployPreview_def Let_def split: sum.splits
           dest: exec_error_kind JSON_parse_error)

lemma deployProductionSite_error_kind:
  assumes "fst (deployProductionSite ex auth cfg st) = Inl e"
  shows "e = SyntaxError \<or> (\<exists>m. e = ProcessFailure m)"
  using assms
  by (auto simp: deployProductionSite_def Let_def split: sum.splits
           dest: exec_error_kind JSON_parse_error)

section \<open>White space around a JSON text\<close>

text \<open>
  \<open>JSON.parse\<close> skips the white space of the JSON grammar before and after the value: a
  text padded with such characters parses as the text without them. The proof follows the
  lexer: no token starts with a white space character, and no token that is cut short by
  the end of the text is completed by one.
\<close>

lemma tokenize_ws: "list_all isJsonWS post \<Longrightarrow> tokenize post = Some []"
  by (induction post) simp_all

lemma tokenize_ws_prefix: "list_all isJsonWS pre \<Longrightarrow> tokenize (pre @ t) = tokenize t"
  by (induction pre) simp_all

lemma take_literal_ws:
  assumes "list_all isJsonWS post" and "\<forall>c \<in> set lit. \<not> isJsonWS c"
  shows "(take (length lit) (s @ post) = lit) = (take (length lit) s = lit)"
proof (cases "length lit \<le> length s")
  case True
  then show ?thesis by simp
next
  case False
  then have short: "length s < length lit" by simp
  have "take (length lit) s \<noteq> lit"
  proof
    assume "take (length lit) s = lit"
    then have "length (take (length lit) s) = length lit" by simp
    with short show False by simp
  qed
  moreover have "take (length lit) (s @ post) \<noteq> lit"
  proof
    assume eq: "take (length lit) (s @ post) = lit"
    then have len: "length (take (length lit) (s @ post)) = length lit" by simp
    then have "take (length lit - length s) post \<noteq> []" using short by auto
    then obtain p where p: "p \<in> set (take (length lit - length s) post)"
      by (cases "take (length lit - length s) post") auto
    then have "p \<in> set post" by (rule in_set_takeD)
    with assms(1) have "isJsonWS p" by (simp add: list_all_iff)
    moreover from p eq have "p \<in> set lit" by (metis Un_iff set_append take_append)
    ultimately show False using assms(2) by blast
  qed
  ultimately show ?thesis by simp
qed

lemma drop_append_ws:
  assumes "list_all isJsonWS post"
  shows "\<exists>post'. list_all isJsonWS post' \<and> drop k (s @ post) = drop k s @ post'"
proof (intro exI conjI)
  show "list_all isJsonWS (drop (k - length s) post)"
    using assms by (auto simp: list_all_iff dest: in_set_dropD)
  show "drop k (s @ post) = drop k s @ drop (k - length s) post" by simp
qed

lemma isDigit_not_ws: "isDigit c \<Longrightarrow> \<not> isJsonWS c"
  by (auto simp: isDigit_def isJsonWS_def)

lemma takeWhile_isDigit_ws:
  assumes "list_all isJsonWS post"
  shows "takeWhile isDigit (s @ post) = takeWhile isDigit s"
proof -
  have "takeWhile isDigit post = []"
    using assms by (cases post) (auto dest: isDigit_not_ws)
  then show ?thesis by (induction s) auto
qed

lemma take1_ws:
  assumes "list_all isJsonWS post" and "\<not> isJsonWS c"
  shows "(take 1 (s @ post) = [c]) = (take 1 s = [c])"
  using take_literal_ws [of post "[c]" s] assms by simp

lemma take2_ws:
  assumes "list_all isJsonWS post" and "\<not> isJsonWS a" and "\<not> isJsonWS b"
  shows "(take 2 (s @ post) = [a, b]) = (take 2 s = [a, b])"
proof -
  have len: "length [a, b] = 2" by simp
  from assms(2,3) have "\<forall>c \<in> set [a, b]. \<not> isJsonWS c" by simp
  from take_literal_ws [OF assms(1) this, of s, unfolded len] show ?thesis .
qed

lemma take4_ws:
  assumes "list_all isJsonWS post" and "length lit = 4" and "\<forall>c \<in> set lit. \<not> isJsonWS c"
  shows "(take 4 (s @ post) = lit) = (take 4 s = lit)"
  using take_literal_ws [OF assms(1,3), of s] by (simp only: assms(2))

lemma take5_ws:
  assumes "list_all isJsonWS post" and "length lit = 5" and "\<forall>c \<in> set lit. \<not> isJsonWS c"
  shows "(take 5 (s @ post) = lit) = (take 5 s = lit)"
  using take_literal_ws [OF assms(1,3), of s] by (simp only: assms(2))

lemma intLen_ws:
  assumes "list_all isJsonWS post"
  shows "intLen (s @ post) = intLen s"
proof -
  have t: "(take 1 (s @ post) = ''0'') = (take 1 s = ''0'')"
    by (rule take1_ws [OF assms]) (simp add: isJsonWS_def)
  show ?thesis
    unfolding intLen_def t takeWhile_isDigit_ws [OF assms] ..
qed

lemma fracLen_ws:
  assumes "list_all isJsonWS post"
  shows "fracLen (s @ post) = fracLen s"
proof -
  obtain post' where p: "list_all isJsonWS post'" "drop 1 (s @ post) = drop 1 s @ post'"
    using drop_append_ws [OF assms] by blast
  have t: "(take 1 (s @ post) = ''.'') = (take 1 s = ''.'')"
    by (rule take1_ws [OF assms]) (simp add: isJsonWS_def)
  show ?thesis
    unfolding fracLen_def p(2) t takeWhile_isDigit_ws [OF p(1)] ..
qed

lemma expLen_ws:
  assumes "list_all isJsonWS post"
  shows "expLen (s @ post) = expLen s"
proof -
  obtain p1 where p1: "list_all isJsonWS p1" "drop 1 (s @ post) = drop 1 s @ p1"
    using drop_append_ws [OF assms] by blast
  have d: "\<And>k. \<exists>post'. list_all isJsonWS post' \<and> drop k (s @ post) = drop k s @ post'"
    using drop_append_ws [OF assms] by blast
  have tw: "takeWhile isDigit (drop k (s @ post)) = takeWhile isDigit (drop k s)" for k
  proof -
    obtain q where "list_all isJsonWS q" "drop k (s @ post) = drop k s @ q"
      using d by blast
    then show ?thesis by (simp add: takeWhile_isDigit_ws)
  qed
  have t1: "(take 1 (s @ post) = ''e'') = (take 1 s = ''e'')"
    by (rule take1_ws [OF assms]) (simp add: isJsonWS_def)
  have t2: "(take 1 (s @ post) = ''E'') = (take 1 s = ''E'')"
    by (rule take1_ws [OF assms]) (simp add: isJsonWS_def)
  have t3: "(take 1 (drop 1 s @ p1) = ''+'') = (take 1 (drop 1 s) = ''+'')"
    by (rule take1_ws [OF p1(1)]) (simp add: isJsonWS_def)
  have t4: "(take 1 (drop 1 s @ p1) = ''-'') = (take 1 (drop 1 s) = ''-'')"
    by (rule take1_ws [OF p1(1)]) (simp add: isJsonWS_def)
  show ?thesis
    unfolding expLen_def Let_def tw t1 t2 p1(2) t3 t4 ..
qed

lemma lexNumber_ws:
  assumes "list_all isJsonWS post"
  shows "lexNumber (s @ post) = lexNumber s"
proof -
  have d: "\<And>k. \<exists>post'. list_all isJsonWS post' \<and> drop k (s @ post) = drop k s @ post'"
    using drop_append_ws [OF assms] by blast
  have i: "intLen (drop k (s @ post)) = intLen (drop k s)" for k
  proof -
    obtain q where "list_all isJsonWS q" "drop k (s @ post) = drop k s @ q"
      using d by blast
    then show ?thesis by (simp add: intLen_ws)
  qed
  have f: "fracLen (drop k (s @ post)) = fracLen (drop k s)" for k
  proof -
    obtain q where "list_all isJsonWS q" "drop k (s @ post) = drop k s @ q"
      using d by blast
    then show ?thesis by (simp add: fracLen_ws)
  qed
  have e: "expLen (drop k (s @ post)) = expLen (drop k s)" for k
  proof -
    obtain q where "list_all isJsonWS q" "drop k (s @ post) = drop k s @ q"
      using d by blast
    then show ?thesis by (simp add: expLen_ws)
  qed
  have t: "(take 1 (s @ post) = ''-'') = (take 1 s = ''-'')"
    by (rule take1_ws [OF assms]) (simp add: isJsonWS_def)
  show ?thesis
    unfolding lexNumber_def Let_def i f e t ..
qed

lemma intLen_le: "intLen s \<le> length s"
proof (cases "take 1 s = ''0''")
  case True
  then have "s \<noteq> []" by auto
  with True show ?thesis by (cases s) (simp_all add: intLen_def)
next
  case False
  then show ?thesis by (simp add: intLen_def length_takeWhile_le)
qed

lemma fracLen_le:
  assumes "fracLen s = Some f"
  shows "f \<le> length s"
proof (cases "take 1 s = ''.''")
  case True
  then obtain cs where s: "s = CHR ''.'' # cs" by (cases s) auto
  have "length (takeWhile isDigit cs) \<le> length cs" by (rule length_takeWhile_le)
  with assms s show ?thesis by (auto simp: fracLen_def Let_def split: if_splits)
next
  case False
  with assms show ?thesis by (simp add: fracLen_def)
qed

lemma expLen_le:
  assumes "expLen s = Some e"
  shows "e \<le> length s"
proof (cases "take 1 s = ''e'' \<or> take 1 s = ''E''")
  case True
  define sgn :: nat where
    "sgn = (if take 1 (drop 1 s) = ''+'' \<or> take 1 (drop 1 s) = ''-'' then 1 else 0)"
  define d where "d = length (takeWhile isDigit (drop (1 + sgn) s))"
  from assms True have e: "e = 1 + sgn + d" and pos: "d \<noteq> 0"
    by (auto simp: expLen_def Let_def sgn_def d_def split: if_splits)
  have "d \<le> length (drop (1 + sgn) s)" unfolding d_def by (rule length_takeWhile_le)
  with pos e show ?thesis by simp
next
  case False
  with assms show ?thesis by (simp add: expLen_def)
qed

lemma lexNumber_bound:
  assumes "lexNumber s = Some n"
  shows "0 < n \<and> n \<le> length s"
proof -
  define sgn :: nat where "sgn = (if take 1 s = ''-'' then 1 else 0)"
  define i where "i = intLen (drop sgn s)"
  from assms have ipos: "i \<noteq> 0"
    by (auto simp: lexNumber_def Let_def sgn_def i_def split: if_splits)
  from assms ipos obtain f where f: "fracLen (drop (sgn + i) s) = Some f"
    by (auto simp: lexNumber_def Let_def sgn_def i_def split: if_splits option.splits)
  from assms ipos f obtain e where e: "expLen (drop (sgn + i + f) s) = Some e"
    and n: "n = sgn + i + f + e"
    by (auto simp: lexNumber_def Let_def sgn_def i_def split: if_splits option.splits)
  have "i \<le> length (drop sgn s)" unfolding i_def by (rule intLen_le)
  with ipos have b1: "sgn + i \<le> length s" by simp
  from fracLen_le [OF f] b1 have b2: "sgn + i + f \<le> length s" by simp
  from expLen_le [OF e] b2 have "sgn + i + f + e \<le> length s" by simp
  with n ipos show ?thesis by simp
qed

lemma hexValue_ws: "isJsonWS c \<Longrightarrow> hexValue c = None"
  by (auto simp: hexValue_def isJsonWS_def)

lemma hex4_Some:
  assumes "hex4 s = Some n"
  shows "4 \<le> length s \<and> (\<forall>c \<in> set (take 4 s). hexValue c \<noteq> None)"
proof -
  from assms obtain a b c d where m: "map hexValue (take 4 s) = [Some a, Some b, Some c, Some d]"
    by (simp add: hex4_def split: list.splits option.splits)
  then have "length (map hexValue (take 4 s)) = 4" by simp
  then have "4 \<le> length s" by simp
  moreover have "hexValue x \<noteq> None" if "x \<in> set (take 4 s)" for x
  proof -
    from that have "hexValue x \<in> set (map hexValue (take 4 s))" by simp
    with m show ?thesis by auto
  qed
  ultimately show ?thesis by blast
qed

lemma hex4_ws:
  assumes "list_all isJsonWS post"
  shows "hex4 (s @ post) = hex4 s"
proof (cases "4 \<le> length s")
  case True
  then show ?thesis by (simp add: hex4_def)
next
  case False
  have "hex4 s = None"
  proof (cases "hex4 s")
    case (Some n)
    from hex4_Some [OF Some] False show ?thesis by simp
  qed simp
  moreover have "hex4 (s @ post) = None"
  proof (cases "hex4 (s @ post)")
    case (Some n)
    from hex4_Some [OF Some]
    have len: "4 \<le> length (s @ post)"
      and ok: "\<forall>c \<in> set (take 4 (s @ post)). hexValue c \<noteq> None" by blast+
    from False len have "take (4 - length s) post \<noteq> []" by auto
    then obtain p where p: "p \<in> set (take (4 - length s) post)"
      by (cases "take (4 - length s) post") auto
    then have "p \<in> set post" by (rule in_set_takeD)
    with assms have "hexValue p = None" by (simp add: list_all_iff hexValue_ws)
    moreover from p have "p \<in> set (take 4 (s @ post))" by simp
    ultimately show ?thesis using ok by blast
  qed simp
  ultimately show ?thesis by simp
qed

lemma hex4_drop_ws:
  assumes "list_all isJsonWS post"
  shows "hex4 (drop k (s @ post)) = hex4 (drop k s)"
proof -
  obtain q where "list_all isJsonWS q" "drop k (s @ post) = drop k s @ q"
    using drop_append_ws [OF assms] by blast
  then show ?thesis by (simp add: hex4_ws)
qed

lemma unicodeEscape_ws:
  assumes "list_all isJsonWS post"
  shows "unicodeEscape (s @ post) = unicodeEscape s"
proof -
  obtain q where q: "list_all isJsonWS q" "drop 4 (s @ post) = drop 4 s @ q"
    using drop_append_ws [OF assms] by blast
  have t: "(take 2 (drop 4 (s @ post)) = [CHR 0x5C, CHR ''u''])
           = (take 2 (drop 4 s) = [CHR 0x5C, CHR ''u''])"
    unfolding q(2) by (rule take2_ws [OF q(1)]) (simp_all add: isJsonWS_def)
  show ?thesis
    unfolding unicodeEscape_def hex4_ws [OF assms] hex4_drop_ws [OF assms] t ..
qed

lemma unicodeEscape_length:
  assumes "unicodeEscape s = Some (bytes, n)"
  shows "n \<le> length s"
proof -
  from assms obtain hi where hi: "hex4 s = Some hi"
    by (auto simp: unicodeEscape_def split: option.splits)
  then have four: "4 \<le> length s" using hex4_Some by blast
  show ?thesis
  proof (cases "n = 10")
    case True
    with assms hi obtain lo where "hex4 (drop 6 s) = Some lo"
      by (auto simp: unicodeEscape_def split: option.splits if_splits)
    then have "4 \<le> length (drop 6 s)" using hex4_Some by blast
    with True show ?thesis by simp
  next
    case False
    with assms hi have "n = 4"
      by (auto simp: unicodeEscape_def split: option.splits if_splits)
    with four show ?thesis by simp
  qed
qed

lemma simpleEscape_ws: "isJsonWS c \<Longrightarrow> simpleEscape c = None"
  by (auto simp: simpleEscape_def isJsonWS_def)

lemma lexString_ws_only: "list_all isJsonWS post \<Longrightarrow> lexString post = None"
proof (induction post)
  case Nil
  show ?case by simp
next
  case (Cons p ps)
  then have ws: "isJsonWS p" and rest: "lexString ps = None" by simp_all
  from ws have "p \<noteq> CHR 0x22" "p \<noteq> CHR 0x5C" by (auto simp: isJsonWS_def)
  with rest show ?case by simp
qed

lemma lexString_ws:
  assumes "list_all isJsonWS post"
  shows "lexString (s @ post) = map_option (\<lambda>(t, r). (t, r @ post)) (lexString s)"
proof (induction s rule: lexString.induct)
  case 1
  show ?case using lexString_ws_only [OF assms] by simp
next
  case (2 c cs)
  show ?case
  proof (cases "c = CHR 0x22")
    case True
    then show ?thesis by simp
  next
    case notq: False
    show ?thesis
    proof (cases "c = CHR 0x5C")
      case bs: True
      show ?thesis
      proof (cases cs)
        case Nil
        show ?thesis
        proof (cases post)
          case Nil
          with \<open>cs = []\<close> bs notq show ?thesis by simp
        next
          case (Cons p ps)
          with assms have "isJsonWS p" by simp
          then have "p \<noteq> CHR ''u''" "simpleEscape p = None"
            by (auto simp: isJsonWS_def simpleEscape_ws)
          with \<open>cs = []\<close> Cons bs notq show ?thesis by simp
        qed
      next
        case (Cons e r)
        show ?thesis
        proof (cases "e = CHR ''u''")
          case u: True
          show ?thesis
          proof (cases "unicodeEscape r")
            case None
            with Cons u bs notq show ?thesis
              by (simp add: unicodeEscape_ws [OF assms])
          next
            case (Some a)
            obtain bytes n where a: "a = (bytes, n)" by (cases a)
            from Some a have n: "n \<le> length r" using unicodeEscape_length by blast
            from "2.IH"(1) [OF notq bs Cons u Some [unfolded a] refl]
            have "lexString (drop n r @ post)
                  = map_option (\<lambda>(t, r). (t, r @ post)) (lexString (drop n r))" .
            with Cons u bs notq Some a n show ?thesis
              by (simp add: unicodeEscape_ws [OF assms] option.map_comp comp_def
                    case_prod_beta)
          qed
        next
          case nu: False
          show ?thesis
          proof (cases "simpleEscape e")
            case None
            with Cons nu bs notq show ?thesis by simp
          next
            case (Some x)
            from "2.IH"(2) [OF notq bs Cons nu Some]
            have "lexString (r @ post) = map_option (\<lambda>(t, r). (t, r @ post)) (lexString r)" .
            with Cons nu bs notq Some show ?thesis
              by (simp add: option.map_comp comp_def case_prod_beta)
          qed
        qed
      qed
    next
      case nbs: False
      show ?thesis
      proof (cases "(of_char c :: nat) < 0x20")
        case True
        with notq nbs show ?thesis by simp
      next
        case False
        from "2.IH"(3) [OF notq nbs False]
        have "lexString (cs @ post) = map_option (\<lambda>(t, r). (t, r @ post)) (lexString cs)" .
        with notq nbs False show ?thesis
          by (simp add: option.map_comp comp_def case_prod_beta)
      qed
    qed
  qed
qed

lemma tokenize_ws_suffix:
  assumes ws: "list_all isJsonWS post"
  shows "tokenize (t @ post) = tokenize t"
proof (induction "length t" arbitrary: t rule: less_induct)
  case less
  show ?case
  proof (cases t)
    case Nil
    then show ?thesis using tokenize_ws [OF ws] by simp
  next
    case (Cons c cs)
    have IH: "tokenize (x @ post) = tokenize x" if "length x \<le> length cs" for x
      using less [of x] that Cons by simp
    have str: "lexString (cs @ post) = map_option (\<lambda>(t, r). (t, r @ post)) (lexString cs)"
      by (rule lexString_ws [OF ws])
    have num: "lexNumber (c # cs @ post) = lexNumber (c # cs)"
      using lexNumber_ws [OF ws, of "c # cs"] by simp
    have tr: "(take 4 (c # cs @ post) = ''true'') = (take 4 (c # cs) = ''true'')"
      using take4_ws [OF ws, of "''true''" "c # cs"] by (simp add: isJsonWS_def)
    have fa: "(take 5 (c # cs @ post) = ''false'') = (take 5 (c # cs) = ''false'')"
      using take5_ws [OF ws, of "''false''" "c # cs"] by (simp add: isJsonWS_def)
    have nu: "(take 4 (c # cs @ post) = ''null'') = (take 4 (c # cs) = ''null'')"
      using take4_ws [OF ws, of "''null''" "c # cs"] by (simp add: isJsonWS_def)
    have strcase: "(case lexString (cs @ post) of None \<Rightarrow> None
                    | Some (t, r) \<Rightarrow> map_option ((#) (TLit (JString t))) (tokenize r))
                 = (case lexString cs of None \<Rightarrow> None
                    | Some (t, r) \<Rightarrow> map_option ((#) (TLit (JString t))) (tokenize r))"
    proof (cases "lexString cs")
      case None
      then show ?thesis by (simp add: str)
    next
      case (Some a)
      obtain u r where a: "a = (u, r)" by (cases a)
      from Some a have "length r < length cs" using lexString_length by blast
      then have "tokenize (r @ post) = tokenize r" using IH by simp
      with Some a show ?thesis by (simp add: str)
    qed
    have numcase: "(case lexNumber (c # cs @ post) of None \<Rightarrow> None
                    | Some n \<Rightarrow> map_option ((#) (TLit (JNumber (take n (c # cs @ post)))))
                                 (tokenize (drop (n - 1) (cs @ post))))
                 = (case lexNumber (c # cs) of None \<Rightarrow> None
                    | Some n \<Rightarrow> map_option ((#) (TLit (JNumber (take n (c # cs)))))
                                 (tokenize (drop (n - 1) cs)))"
    proof (cases "lexNumber (c # cs)")
      case None
      then show ?thesis by (simp add: num)
    next
      case (Some n)
      from lexNumber_bound [OF Some] have n: "0 < n" "n \<le> Suc (length cs)" by simp_all
      then have "n - 1 \<le> length cs" by simp
      then have d: "drop (n - 1) (cs @ post) = drop (n - 1) cs @ post" by simp
      have key: "tokenize (drop (n - 1) (cs @ post)) = tokenize (drop (n - 1) cs)"
        unfolding d using IH by simp
      have tk: "take n (c # cs @ post) = take n (c # cs)"
        using n by (cases n) simp_all
      show ?thesis unfolding num Some option.case key tk ..
    qed
    have d3: "tokenize (drop 3 (cs @ post)) = tokenize (drop 3 cs)"
      if "3 \<le> length cs"
      using that IH [of "drop 3 cs"] by simp
    have d4: "tokenize (drop 4 (cs @ post)) = tokenize (drop 4 cs)"
      if "4 \<le> length cs"
      using that IH [of "drop 4 cs"] by simp
    have l4: "3 \<le> length cs" if "take 4 (c # cs) = lit" "length lit = 4" for lit
    proof -
      from that have "length (take 4 (c # cs)) = 4" by simp
      then show ?thesis by simp
    qed
    have l5: "4 \<le> length cs" if "take 5 (c # cs) = lit" "length lit = 5" for lit
    proof -
      from that have "length (take 5 (c # cs)) = 5" by simp
      then show ?thesis by simp
    qed
    have "tokenize (c # cs @ post) = tokenize (c # cs)"
    proof (cases "take 4 (c # cs) = ''true''")
      case True
      from l4 [OF True] have "3 \<le> length cs" by simp
      from d3 [OF this] True show ?thesis
        unfolding tokenize.simps strcase numcase tr fa nu IH [OF order_refl]
            by (simp del: drop_append)
    next
      case nt: False
      show ?thesis
      proof (cases "take 5 (c # cs) = ''false''")
        case True
        from l5 [OF True] have "4 \<le> length cs" by simp
        from d4 [OF this] nt True show ?thesis
          unfolding tokenize.simps strcase numcase tr fa nu IH [OF order_refl]
            by (simp del: drop_append)
      next
        case nf: False
        show ?thesis
        proof (cases "take 4 (c # cs) = ''null''")
          case True
          from l4 [OF True] have "3 \<le> length cs" by simp
          from d3 [OF this] nt nf True show ?thesis
            unfolding tokenize.simps strcase numcase tr fa nu IH [OF order_refl]
            by (simp del: drop_append)
        next
          case False
          from nt nf False
          have no: "(take 4 (c # cs) = ''true'') = False" "(take 5 (c # cs) = ''false'') = False"
            "(take 4 (c # cs) = ''null'') = False"
            by simp_all
          show ?thesis
            unfolding tokenize.simps strcase numcase tr fa nu IH [OF order_refl] no if_False ..
        qed
      qed
    qed
    with Cons show ?thesis by simp
  qed
qed

lemma JSON_parse_ws_padding:
  assumes "list_all isJsonWS pre" and "list_all isJsonWS post"
  shows "JSON_parse (pre @ t @ post) = JSON_parse t"
  by (simp add: JSON_parse_def tokenize_ws_prefix [OF assms(1)] tokenize_ws_suffix [OF assms(2)])

lemma formfeed_example:
  \<open>JSON_parse (trim (CHR 0x0C # ''{"status":"success","result":{}}''))
     = Inr (JObject [(''status'', JString ''success''), (''result'', JObject [])]) \<and>
   JSON_parse (CHR 0x0C # ''{"status":"success","result":{}}'') = Inl SyntaxError\<close>
  by (simp add: json_eval trim_eval)

section \<open>Property order of an object\<close>









section \<open>The retry policy\<close>

text \<open>
  Claim C1. Let the first invocation of the external process fail. If \<open>options.debug\<close> was
  false (or absent), exactly one more invocation follows, with the same command line,
  environment and arguments but for the last argument, which is \<open>--debug\<close>; if it fails
  too, its error is the error of \<open>execWithCredentials\<close>, and there is no third invocation.
  If \<open>options.debug\<close> was true, the first error is the error of \<open>execWithCredentials\<close> at
  once and nothing is invoked again. In every case at most two invocations are made.
\<close>

theorem execWithCredentials_retry_policy:
  assumes "callA = execCall args pid auth (debugOf opts) (versionOf opts) (process_env st)"
    and "callB = execCall args pid auth True (versionOf opts) (process_env st)"
    and "ex callA (world st) = (ra, wa)"
    and "ex callB wa = (rb, wb)"
    and "rejection ra = Some ma"
    and "execWithCredentials ex args pid auth opts st = (res, st')"
  shows "(\<not> debugOf opts \<longrightarrow>
            calls st' = calls st @ [callA, callB] \<and> world st' = wb \<and>
            (\<forall>mb. rejection rb = Some mb \<longrightarrow> res = Inl (ProcessFailure mb))) \<and>
         (debugOf opts \<longrightarrow>
            calls st' = calls st @ [callA] \<and> world st' = wa \<and> res = Inl (ProcessFailure ma)) \<and>
         commandLine callB = commandLine callA \<and> inv_env callB = inv_env callA \<and>
         butlast (inv_args callB) = butlast (inv_args callA) \<and>
         last (inv_args callB) = ''--debug'' \<and>
         length (calls st') \<le> length (calls st) + 2"
proof -
  have same: "commandLine callB = commandLine callA \<and> inv_env callB = inv_env callA \<and>
              butlast (inv_args callB) = butlast (inv_args callA) \<and>
              last (inv_args callB) = ''--debug''"
    unfolding assms(1,2)
    by (simp add: execCall_butlast_args execCall_last_arg
                  execCall_env_debug [of args pid auth True _ _ "debugOf opts"])
  show ?thesis
  proof (cases "debugOf opts")
    case True
    from exec_rejected_debug [of ex args pid auth opts st ra wa ma] assms True
    have "execWithCredentials ex args pid auth opts st =
            (Inl (ProcessFailure ma),
             st\<lparr>world := wa, calls := calls st @ [callA],
                console := console st @ [stdout_text ra, ma]\<rparr>)"
      by simp
    with assms(6) True same show ?thesis by auto
  next
    case False
    from exec_rejected_twice [of ex args pid auth opts st ra wa ma rb wb] assms False
    have "execWithCredentials ex args pid auth opts st =
            ((case rejection rb of
                None \<Rightarrow> Inr (lastChunk (stdout_data ra))
              | Some mb \<Rightarrow> Inl (ProcessFailure mb)),
             st\<lparr>world := wb, calls := calls st @ [callA, callB],
                console := console st @ [stdout_text ra, ma,
                             ''Retrying deploy with the --debug flag for better error output'']
                           @ (case rejection rb of
                                None \<Rightarrow> []
                              | Some mb \<Rightarrow> [stdout_text rb, mb])\<rparr>)"
      by simp
    with assms(6) False same show ?thesis by auto
  qed
qed

text \<open>
  A process that fails three times in a row: two invocations, the second with \<open>--debug\<close>,
  the second error returned, the third run never started.
\<close>

theorem execWithCredentials_retry_policy_witness:
  "fst (execWithCredentials scripted [''deploy''] ''demo'' noAuth
          \<lparr>opts_debug = None, opts_firebaseToolsVersion = None\<rparr>
          (initial [fails [''a''] ''first'', fails [''b''] ''second'', fails [''c''] ''third'']))
     = Inl (ProcessFailure ''second'') \<and>
   map inv_args (calls (snd (execWithCredentials scripted [''deploy''] ''demo'' noAuth
          \<lparr>opts_debug = None, opts_firebaseToolsVersion = None\<rparr>
          (initial [fails [''a''] ''first'', fails [''b''] ''second'', fails [''c''] ''third'']))))
     = [[''deploy'', ''--project'', ''demo'', []], [''deploy'', ''--project'', ''demo'', ''--debug'']] \<and>
   world (snd (execWithCredentials scripted [''deploy''] ''demo'' noAuth
          \<lparr>opts_debug = None, opts_firebaseToolsVersion = None\<rparr>
          (initial [fails [''a''] ''first'', fails [''b''] ''second'', fails [''c''] ''third''])))
     = [fails [''c''] ''third'']"
  using execWithCredentials_retry_policy
    [of "execCall [''deploy''] ''demo'' noAuth False ''latest'' Map.empty"
        "[''deploy'']" "''demo''" noAuth "\<lparr>opts_debug = None, opts_firebaseToolsVersion = None\<rparr>"
        "initial [fails [''a''] ''first'', fails [''b''] ''second'', fails [''c''] ''third'']"
        "execCall [''deploy''] ''demo'' noAuth True ''latest'' Map.empty"
        scripted
        "fails [''a''] ''first''" "[fails [''b''] ''second'', fails [''c''] ''third'']"
        "fails [''b''] ''second''" "[fails [''c''] ''third'']"
        "''first''"
        "fst (execWithCredentials scripted [''deploy''] ''demo'' noAuth
          \<lparr>opts_debug = None, opts_firebaseToolsVersion = None\<rparr>
          (initial [fails [''a''] ''first'', fails [''b''] ''second'', fails [''c''] ''third'']))"
        "snd (execWithCredentials scripted [''deploy''] ''demo'' noAuth
          \<lparr>opts_debug = None, opts_firebaseToolsVersion = None\<rparr>
          (initial [fails [''a''] ''first'', fails [''b''] ''second'', fails [''c''] ''third'']))"]
  by (simp add: scripted_eval)

section \<open>The composed argument list\<close>

text \<open>
  Claim C2, as amended. The argument list of the first invocation is the base list, then
  \<open>--project\<close> and the project id iff the id is not empty, then \<open>--token\<close> and the token
  iff there is one, then one last argument: \<open>--debug\<close> iff \<open>options.debug\<close> is true, and the
  empty string otherwise. The flag is not left out when \<open>debug\<close> is false: an empty-string
  argument stands in its place.
\<close>

theorem execWithCredentials_last_argument:
  "inv_args (calls (snd (execWithCredentials ex args pid auth opts st)) ! length (calls st)) =
     args
     @ (if pid \<noteq> [] then [''--project'', pid] else [])
     @ (if truthy (firebaseToken auth) then [''--token'', the (firebaseToken auth)] else [])
     @ [if debugOf opts then ''--debug'' else ''''] \<and>
   (last (inv_args (calls (snd (execWithCredentials ex args pid auth opts st)) ! length (calls st)))
      = ''--debug'') = debugOf opts \<and>
   (last (inv_args (calls (snd (execWithCredentials ex args pid auth opts st)) ! length (calls st)))
      = '''') = (\<not> debugOf opts)"
  by (simp add: exec_first_call execCall_args)

theorem execWithCredentials_last_argument_witness:
  "inv_args (calls (snd (execWithCredentials scripted [''deploy''] ''demo''
        \<lparr>gacFilename = None, firebaseToken = Some ''tok''\<rparr>
        \<lparr>opts_debug = Some False, opts_firebaseToolsVersion = None\<rparr>
        (initial [succeeds [''{}'']]))) ! 0)
     = [''deploy'', ''--project'', ''demo'', ''--token'', ''tok'', '''']"
  using execWithCredentials_last_argument [of scripted "[''deploy'']" "''demo''"
        "\<lparr>gacFilename = None, firebaseToken = Some ''tok''\<rparr>"
        "\<lparr>opts_debug = Some False, opts_firebaseToolsVersion = None\<rparr>"
        "initial [succeeds [''{}'']]"]
  by (simp add: scripted_eval)

text \<open>
  Claim C2 as stated says that with \<open>debug\<close> false the list has no empty-string argument.
  It has one.
\<close>

theorem execWithCredentials_empty_argument_counterexample:
  "'''' \<in> set (inv_args (hd (calls (snd (execWithCredentials scripted [''deploy''] ''demo'' noAuth
        \<lparr>opts_debug = Some False, opts_firebaseToolsVersion = None\<rparr>
        (initial [succeeds [''{}'']]))))))"
  by (simp add: execWithCredentials.simps scripted_eval)

section \<open>Parsing the output\<close>

text \<open>
  Claim C3, as amended. Let \<open>text\<close> be what \<open>execWithCredentials\<close> returned. If \<open>text\<close>
  (trimmed, in \<open>deployPreview\<close>; as it is, in \<open>deployProductionSite\<close>) is not valid JSON, the
  function fails with the SyntaxError of \<open>JSON.parse\<close>, which is no process failure, and
  returns no result. If it is valid JSON, the parsed value is the result, whatever its
  shape: no \<open>status\<close> field is looked for.
\<close>

theorem parse_step_fails_on_invalid_JSON:
  "(execWithCredentials ex (previewArgs cfg) (projectId cfg) auth
       \<lparr>opts_debug = None, opts_firebaseToolsVersion = firebaseToolsVersion cfg\<rparr> st
     = (Inr text, st') \<longrightarrow>
      (JSON_parse (trim text) = Inl SyntaxError \<longrightarrow>
         deployPreview ex auth cfg st = (Inl SyntaxError, st')) \<and>
      (\<forall>v. JSON_parse (trim text) = Inr v \<longrightarrow> deployPreview ex auth cfg st = (Inr v, st'))) \<and>
   (execWithCredentials ex (productionArgs pcfg) (projectId pcfg) auth
       \<lparr>opts_debug = None, opts_firebaseToolsVersion = firebaseToolsVersion pcfg\<rparr> st
     = (Inr text, st') \<longrightarrow>
      (JSON_parse text = Inl SyntaxError \<longrightarrow>
         deployProductionSite ex auth pcfg st = (Inl SyntaxError, st')) \<and>
      (\<forall>v. JSON_parse text = Inr v \<longrightarrow> deployProductionSite ex auth pcfg st = (Inr v, st'))) \<and>
   (\<forall>t e. JSON_parse t = Inl e \<longrightarrow> e = SyntaxError) \<and>
   (\<forall>m. SyntaxError \<noteq> ProcessFailure m)"
  by (auto simp: deployPreview_text deployProductionSite_text dest: JSON_parse_error)

theorem parse_step_fails_on_invalid_JSON_witness:
  "fst (deployPreview scripted noAuth demoPreview (initial [succeeds [''not json'']]))
     = Inl SyntaxError \<and>
   fst (deployProductionSite scripted noAuth demoProduction (initial [succeeds [''not json'']]))
     = Inl SyntaxError \<and>
   JSON_parse (trim ''not json'') = Inl SyntaxError \<and>
   JSON_parse ''not json'' = Inl SyntaxError"
  using parse_step_fails_on_invalid_JSON [of scripted demoPreview noAuth
          "initial [succeeds [''not json'']]" "''not json''"
          "(initial [succeeds [''not json'']])
             \<lparr>world := [],
              calls := [execCall (previewArgs demoPreview) ''demo'' noAuth False ''latest'' Map.empty]\<rparr>"
          demoProduction]
        parse_step_fails_on_invalid_JSON [of scripted demoPreview noAuth
          "initial [succeeds [''not json'']]" "''not json''"
          "(initial [succeeds [''not json'']])
             \<lparr>world := [],
              calls := [execCall (productionArgs demoProduction) ''demo'' noAuth False ''latest'' Map.empty]\<rparr>"
          demoProduction]
  by (simp add: exec_scripted_resolved demoPreview_def demoProduction_def lastChunk_def
        debugOf_def versionOf_def truthy_def json_eval trim_eval)

text \<open>
  Claim C3 as stated says that a text whose parsed value has no \<open>status\<close> field equal to
  \<open>"success"\<close> or \<open>"error"\<close> makes the parsing step fail. Such values are returned.
\<close>

theorem parse_step_accepts_any_JSON_counterexample:
  \<open>fst (deployPreview scripted noAuth demoPreview (initial [succeeds [''{"status":"pending"}'']]))
     = Inr (JObject [(''status'', JString ''pending'')]) \<and>
   fst (deployProductionSite scripted noAuth demoProduction (initial [succeeds [''42'']]))
     = Inr (JNumber ''42'')\<close>
  by (simp add: deployPreview_def deployProductionSite_def exec_scripted_resolved lastChunk_def
        json_eval trim_eval)

section \<open>The output of a failed attempt\<close>

text \<open>
  Claim C4 says that what a failed invocation wrote is never the value of
  \<open>execWithCredentials\<close>. Here the first run writes two chunks and fails, and the retry
  writes the JSON result and succeeds: the value is the last chunk of the failed run, after
  two invocations, and \<open>deployPreview\<close> fails to parse it.
\<close>

theorem execWithCredentials_returns_failed_attempt_output:
  \<open>fst (execWithCredentials scripted [''hosting:channel:deploy'', ''pr1''] ''demo'' noAuth
          \<lparr>opts_debug = None, opts_firebaseToolsVersion = None\<rparr>
          (initial [fails [''i  deploying hosting'', ''Error: request failed''] ''exit code 1'',
                    succeeds [''[debug] trace'', ''{"status":"success","result":{}}'']]))
     = Inr ''Error: request failed'' \<and>
   length (calls (snd (execWithCredentials scripted [''hosting:channel:deploy'', ''pr1''] ''demo'' noAuth
          \<lparr>opts_debug = None, opts_firebaseToolsVersion = None\<rparr>
          (initial [fails [''i  deploying hosting'', ''Error: request failed''] ''exit code 1'',
                    succeeds [''[debug] trace'', ''{"status":"success","result":{}}'']]))))
     = 2 \<and>
   fst (deployPreview scripted noAuth demoPreview
          (initial [fails [''i  deploying hosting'', ''Error: request failed''] ''exit code 1'',
                    succeeds [''[debug] trace'', ''{"status":"success","result":{}}'']]))
     = Inl SyntaxError\<close>
  by (simp add: deployPreview_def execWithCredentials.simps scripted_eval
        demoPreview_def previewArgs_def json_eval trim_eval)

section \<open>Interpreting a channel deploy result\<close>

text \<open>
  Claim C5, as amended. For a result mapping without entries,
  \<open>interpretChannelDeployResult\<close> fails with the TypeError of reading \<open>expireTime\<close> of
  \<open>undefined\<close>; it returns no interpretation.
\<close>

theorem interpretChannelDeployResult_empty:
  "result deployResult = [] \<Longrightarrow>
     interpretChannelDeployResult otherFormats deployResult = Inl TypeError"
  by (simp add: interpretChannelDeployResult_def)

theorem interpretChannelDeployResult_empty_witness:
  "interpretChannelDeployResult isoOnly \<lparr>result = []\<rparr> = Inl TypeError"
  using interpretChannelDeployResult_empty [of "\<lparr>result = []\<rparr>" isoOnly] by simp

text \<open>
  Claim C5 as stated says that the failure is a PreconditionError and not the error of the
  undefined access. It is the error of the undefined access.
\<close>

theorem interpretChannelDeployResult_empty_counterexample:
  "interpretChannelDeployResult isoOnly \<lparr>result = []\<rparr> = Inl TypeError \<and>
   interpretChannelDeployResult isoOnly \<lparr>result = []\<rparr> \<noteq> Inl PreconditionError"
  by (simp add: interpretChannelDeployResult_def)




section \<open>The value of \<open>execWithCredentials\<close>\<close>

text \<open>
  Claim C7, as amended. When the first invocation resolves, \<open>execWithCredentials\<close> returns
  the last chunk it captured, as it is (not trimmed), and the empty string when it
  captured none.
\<close>

theorem execWithCredentials_returns_last_chunk:
  assumes "ex (execCall args pid auth (debugOf opts) (versionOf opts) (process_env st)) (world st) = (ra, wa)"
    and "rejection ra = None"
  shows "fst (execWithCredentials ex args pid auth opts st) =
           Inr (if stdout_data ra = [] then '''' else last (stdout_data ra))"
  using exec_resolved [of ex args pid auth opts st ra wa, OF assms] by (simp add: lastChunk_def)

theorem execWithCredentials_returns_last_chunk_witness:
  \<open>fst (execWithCredentials scripted [''deploy''] ''demo'' noAuth
          \<lparr>opts_debug = None, opts_firebaseToolsVersion = None\<rparr>
          (initial [succeeds [''i  deploying'', '' {"status":"success","result":{}}\<newline>'']]))
     = Inr '' {"status":"success","result":{}}\<newline>'' \<and>
   fst (execWithCredentials scripted [''deploy''] ''demo'' noAuth
          \<lparr>opts_debug = None, opts_firebaseToolsVersion = None\<rparr>
          (initial [succeeds []]))
     = Inr ''''\<close>
  using execWithCredentials_returns_last_chunk [of scripted "[''deploy'']" "''demo''" noAuth
          "\<lparr>opts_debug = None, opts_firebaseToolsVersion = None\<rparr>"
          \<open>initial [succeeds [''i  deploying'', '' {"status":"success","result":{}}\<newline>'']]\<close>
          \<open>succeeds [''i  deploying'', '' {"status":"success","result":{}}\<newline>'']\<close> "[]"]
        execWithCredentials_returns_last_chunk [of scripted "[''deploy'']" "''demo''" noAuth
          "\<lparr>opts_debug = None, opts_firebaseToolsVersion = None\<rparr>"
          "initial [succeeds []]" "succeeds []" "[]"]
  by (simp add: scripted_eval)

text \<open>
  Claim C7 as stated says that the value is the last chunk trimmed. The white space around
  it is kept.
\<close>

theorem execWithCredentials_untrimmed_counterexample:
  \<open>fst (execWithCredentials scripted [''deploy''] ''demo'' noAuth
          \<lparr>opts_debug = None, opts_firebaseToolsVersion = None\<rparr>
          (initial [succeeds [''i  deploying'', '' {"status":"success","result":{}}\<newline>'']]))
     \<noteq> Inr (trim (last [''i  deploying'', '' {"status":"success","result":{}}\<newline>'']))\<close>
  by (simp add: execWithCredentials.simps scripted_eval trim_eval)

section \<open>The arguments of a preview deploy\<close>

text \<open>
  Claim C8. The base argument list of \<open>deployPreview\<close> is \<open>hosting:channel:deploy\<close> and the
  channel id, then \<open>--config\<close> and the config path iff one is set (present and not empty),
  then \<open>--only\<close> and the targets joined by commas iff there is at least one target, then
  \<open>--expires\<close> and the duration iff it is set (not empty). It is the beginning of the
  argument list the process is invoked with.
\<close>

theorem deployPreview_argument_list:
  "previewArgs cfg =
     [''hosting:channel:deploy'', channelId cfg]
     @ (if config cfg \<noteq> None \<and> config cfg \<noteq> Some '''' then [''--config'', the (config cfg)] else [])
     @ (if targets cfg \<noteq> None \<and> targets cfg \<noteq> Some [] then [''--only'', join '','' (the (targets cfg))] else [])
     @ (if expires cfg \<noteq> '''' then [''--expires'', expires cfg] else []) \<and>
   inv_args (calls (snd (deployPreview ex auth cfg st)) ! length (calls st)) =
     previewArgs cfg
     @ (if projectId cfg \<noteq> '''' then [''--project'', projectId cfg] else [])
     @ (if truthy (firebaseToken auth) then [''--token'', the (firebaseToken auth)] else [])
     @ ['''']"
proof -
  have "previewArgs cfg =
     [''hosting:channel:deploy'', channelId cfg]
     @ (if config cfg \<noteq> None \<and> config cfg \<noteq> Some '''' then [''--config'', the (config cfg)] else [])
     @ (if targets cfg \<noteq> None \<and> targets cfg \<noteq> Some [] then [''--only'', join '','' (the (targets cfg))] else [])
     @ (if expires cfg \<noteq> '''' then [''--expires'', expires cfg] else [])"
    by (auto simp: previewArgs_def truthy_def split: option.splits)
  moreover have "inv_args (calls (snd (deployPreview ex auth cfg st)) ! length (calls st)) =
     previewArgs cfg
     @ (if projectId cfg \<noteq> '''' then [''--project'', projectId cfg] else [])
     @ (if truthy (firebaseToken auth) then [''--token'', the (firebaseToken auth)] else [])
     @ ['''']"
    by (simp add: deployPreview_state exec_first_call execCall_args debugOf_def)
  ultimately show ?thesis by simp
qed

text \<open>The instance the specification gives.\<close>

theorem deployPreview_argument_list_witness:
  "previewArgs \<lparr>projectId = ''demo'', targets = Some [''a'', ''b''], config = Some ''firebase.json'',
                 firebaseToolsVersion = None, expires = ''7d'', channelId = ''preview-1''\<rparr>
     = [''hosting:channel:deploy'', ''preview-1'', ''--config'', ''firebase.json'',
        ''--only'', ''a,b'', ''--expires'', ''7d''] \<and>
   inv_args (calls (snd (deployPreview scripted noAuth
       \<lparr>projectId = ''demo'', targets = Some [''a'', ''b''], config = Some ''firebase.json'',
        firebaseToolsVersion = None, expires = ''7d'', channelId = ''preview-1''\<rparr>
       (initial []))) ! 0)
     = [''hosting:channel:deploy'', ''preview-1'', ''--config'', ''firebase.json'',
        ''--only'', ''a,b'', ''--expires'', ''7d'', ''--project'', ''demo'', '''']"
  using deployPreview_argument_list [of
       "\<lparr>projectId = ''demo'', targets = Some [''a'', ''b''], config = Some ''firebase.json'',
        firebaseToolsVersion = None, expires = ''7d'', channelId = ''preview-1''\<rparr>"
       scripted noAuth "initial []"]
  by (simp add: scripted_eval)

section \<open>A deploy that the tool reports as failed\<close>

text \<open>
  Claim C9. When the output parses as an object with \<open>status\<close> \<open>"error"\<close> and an error
  message, \<open>deployPreview\<close> and \<open>deployProductionSite\<close> return that object as their value;
  neither ever fails with the error of a failed deploy. It is \<open>run\<close> that throws
  \<open>Error(message)\<close> on such a value.
\<close>

theorem error_result_is_returned_not_thrown:
  assumes "v = JObject members"
    and "map_of members ''status'' = Some (JString ''error'')"
    and "map_of members ''error'' = Some (JString message)"
  shows "(execWithCredentials ex (previewArgs cfg) (projectId cfg) auth
            \<lparr>opts_debug = None, opts_firebaseToolsVersion = firebaseToolsVersion cfg\<rparr> st
          = (Inr text, st') \<and> JSON_parse (trim text) = Inr v \<longrightarrow>
            deployPreview ex auth cfg st = (Inr v, st')) \<and>
         (execWithCredentials ex (productionArgs pcfg) (projectId pcfg) auth
            \<lparr>opts_debug = None, opts_firebaseToolsVersion = firebaseToolsVersion pcfg\<rparr> st
          = (Inr text, st') \<and> JSON_parse text = Inr v \<longrightarrow>
            deployProductionSite ex auth pcfg st = (Inr v, st')) \<and>
         run_statusCheck v = Inl (DeployError (Some (JString message))) \<and>
         (\<forall>x. fst (deployPreview ex auth cfg st) \<noteq> Inl (DeployError x)) \<and>
         (\<forall>x. fst (deployProductionSite ex auth pcfg st) \<noteq> Inl (DeployError x))"
proof -
  have "run_statusCheck v = Inl (DeployError (Some (JString message)))"
    using assms by (simp add: run_statusCheck_def getProp_def)
  moreover have "fst (deployPreview ex auth cfg st) \<noteq> Inl (DeployError x)" for x
    using deployPreview_error_kind [of ex auth cfg st "DeployError x"] by auto
  moreover have "fst (deployProductionSite ex auth pcfg st) \<noteq> Inl (DeployError x)" for x
    using deployProductionSite_error_kind [of ex auth pcfg st "DeployError x"] by auto
  ultimately show ?thesis
    by (simp add: deployPreview_text deployProductionSite_text)
qed

theorem error_result_is_returned_not_thrown_witness:
  \<open>fst (deployPreview scripted noAuth demoPreview
          (initial [succeeds [''{"status":"error","error":"Deploy failed"}'']]))
     = Inr (JObject [(''status'', JString ''error''), (''error'', JString ''Deploy failed'')]) \<and>
   fst (deployProductionSite scripted noAuth demoProduction
          (initial [succeeds [''{"status":"error","error":"Deploy failed"}'']]))
     = Inr (JObject [(''status'', JString ''error''), (''error'', JString ''Deploy failed'')]) \<and>
   run_statusCheck (JObject [(''status'', JString ''error''), (''error'', JString ''Deploy failed'')])
     = Inl (DeployError (Some (JString ''Deploy failed'')))\<close>
  using error_result_is_returned_not_thrown [of
          "JObject [(''status'', JString ''error''), (''error'', JString ''Deploy failed'')]"
          "[(''status'', JString ''error''), (''error'', JString ''Deploy failed'')]"
          "''Deploy failed''" scripted demoPreview noAuth
          \<open>initial [succeeds [''{"status":"error","error":"Deploy failed"}'']]\<close>
          \<open>''{"status":"error","error":"Deploy failed"}''\<close>
          \<open>(initial [succeeds [''{"status":"error","error":"Deploy failed"}'']])
             \<lparr>world := [],
              calls := [execCall (previewArgs demoPreview) ''demo'' noAuth False ''latest'' Map.empty]\<rparr>\<close>
          demoProduction]
        error_result_is_returned_not_thrown [of
          "JObject [(''status'', JString ''error''), (''error'', JString ''Deploy failed'')]"
          "[(''status'', JString ''error''), (''error'', JString ''Deploy failed'')]"
          "''Deploy failed''" scripted demoPreview noAuth
          \<open>initial [succeeds [''{"status":"error","error":"Deploy failed"}'']]\<close>
          \<open>''{"status":"error","error":"Deploy failed"}''\<close>
          \<open>(initial [succeeds [''{"status":"error","error":"Deploy failed"}'']])
             \<lparr>world := [],
              calls := [execCall (productionArgs demoProduction) ''demo'' noAuth False ''latest'' Map.empty]\<rparr>\<close>
          demoProduction]
  by (simp add: exec_scripted_resolved demoPreview_def demoProduction_def lastChunk_def
        debugOf_def versionOf_def truthy_def json_eval trim_eval)

section \<open>Trimmed and untrimmed parsing\<close>

text \<open>
  Claim C10, as amended. \<open>deployPreview\<close> parses the trimmed text and
  \<open>deployProductionSite\<close> the text as it is. When what \<open>trim\<close> removes is white space of
  the JSON grammar only (space, tab, line feed, carriage return; a trailing newline for
  instance), both parse to the same result. They differ for some texts, such as a JSON
  object after a form feed, which \<open>trim\<close> removes and \<open>JSON.parse\<close> does not accept: there
  \<open>deployPreview\<close> returns the parsed value and \<open>deployProductionSite\<close> fails.
\<close>

theorem preview_trims_production_does_not:
  \<open>(execWithCredentials ex (previewArgs cfg) (projectId cfg) auth
       \<lparr>opts_debug = None, opts_firebaseToolsVersion = firebaseToolsVersion cfg\<rparr> st
     = (Inr text, st') \<longrightarrow>
      fst (deployPreview ex auth cfg st) = JSON_parse (trim text)) \<and>
   (execWithCredentials ex (productionArgs pcfg) (projectId pcfg) auth
       \<lparr>opts_debug = None, opts_firebaseToolsVersion = firebaseToolsVersion pcfg\<rparr> st
     = (Inr text, st') \<longrightarrow>
      fst (deployProductionSite ex auth pcfg st) = JSON_parse text) \<and>
   (text = pre @ trim text @ post \<and> list_all isJsonWS pre \<and> list_all isJsonWS post \<longrightarrow>
      JSON_parse text = JSON_parse (trim text)) \<and>
   JSON_parse (trim (CHR 0x0C # ''{"status":"success","result":{}}''))
     = Inr (JObject [(''status'', JString ''success''), (''result'', JObject [])]) \<and>
   JSON_parse (CHR 0x0C # ''{"status":"success","result":{}}'') = Inl SyntaxError\<close>
proof -
  have "JSON_parse text = JSON_parse (trim text)"
    if "text = pre @ trim text @ post" "list_all isJsonWS pre" "list_all isJsonWS post"
    using JSON_parse_ws_padding [OF that(2,3), of "trim text"] that(1) by simp
  then show ?thesis
    using formfeed_example by (simp add: deployPreview_text deployProductionSite_text)
qed

theorem preview_trims_production_does_not_witness:
  \<open>fst (deployPreview scripted noAuth demoPreview
          (initial [succeeds [CHR 0x0C # ''{"status":"success","result":{}}'']]))
     = Inr (JObject [(''status'', JString ''success''), (''result'', JObject [])]) \<and>
   fst (deployProductionSite scripted noAuth demoProduction
          (initial [succeeds [CHR 0x0C # ''{"status":"success","result":{}}'']]))
     = Inl SyntaxError \<and>
   JSON_parse (CHR 0x09 # ''{"status":"success","result":{}}'' @ [CHR 0x0D, CHR 0x0A])
     = JSON_parse (trim (CHR 0x09 # ''{"status":"success","result":{}}'' @ [CHR 0x0D, CHR 0x0A]))\<close>
  using preview_trims_production_does_not [of scripted demoPreview noAuth
          \<open>initial [succeeds [CHR 0x0C # ''{"status":"success","result":{}}'']]\<close>
          \<open>CHR 0x0C # ''{"status":"success","result":{}}''\<close>
          \<open>(initial [succeeds [CHR 0x0C # ''{"status":"success","result":{}}'']])
             \<lparr>world := [],
              calls := [execCall (previewArgs demoPreview) ''demo'' noAuth False ''latest'' Map.empty]\<rparr>\<close>
          demoProduction "[]" "[]"]
        preview_trims_production_does_not [of scripted demoPreview noAuth
          \<open>initial [succeeds [CHR 0x0C # ''{"status":"success","result":{}}'']]\<close>
          \<open>CHR 0x0C # ''{"status":"success","result":{}}''\<close>
          \<open>(initial [succeeds [CHR 0x0C # ''{"status":"success","result":{}}'']])
             \<lparr>world := [],
              calls := [execCall (productionArgs demoProduction) ''demo'' noAuth False ''latest'' Map.empty]\<rparr>\<close>
          demoProduction "[]" "[]"]
        preview_trims_production_does_not [of scripted demoPreview noAuth
          \<open>initial []\<close>
          \<open>CHR 0x09 # ''{"status":"success","result":{}}'' @ [CHR 0x0D, CHR 0x0A]\<close>
          \<open>initial []\<close>
          demoProduction "[CHR 0x09]" "[CHR 0x0D, CHR 0x0A]"]
  by (simp add: exec_scripted_resolved demoPreview_def demoProduction_def lastChunk_def
        debugOf_def versionOf_def truthy_def json_eval trim_eval)

text \<open>
  Claim C10 as stated gives a JSON object surrounded by white space or followed by a
  newline as a text on which \<open>deployProductionSite\<close> fails. It parses it.
\<close>

theorem trailing_newline_parses_counterexample:
  \<open>fst (deployProductionSite scripted noAuth demoProduction
          (initial [succeeds ['' {"status":"success","result":{}}\<newline>'']]))
     = Inr (JObject [(''status'', JString ''success''), (''result'', JObject [])]) \<and>
   fst (deployPreview scripted noAuth demoPreview
          (initial [succeeds ['' {"status":"success","result":{}}\<newline>'']]))
     = Inr (JObject [(''status'', JString ''success''), (''result'', JObject [])])\<close>
  by (simp add: deployPreview_def deployProductionSite_def exec_scripted_resolved lastChunk_def
        json_eval trim_eval)

end
